theory Spec2Isabelle
  imports Complex_Main
begin

section \<open>Binary64 arithmetic\<close>

text \<open>
  Python's \<^verbatim>\<open>float\<close> is an IEEE 754 binary64 number. A finite double is modelled by the
  rational number it denotes, and every arithmetic operation is the exact operation on
  rationals followed by rounding to the nearest double, ties to the even significand.
  Infinities, NaN and the sign of zero are not modelled: every quantity computed below
  stays far inside the finite range.
\<close>

type_synonym double = rat

definition round_half_even :: "rat \<Rightarrow> int" where
  "round_half_even z =
     (let f = \<lfloor>z\<rfloor>; r = z - of_int f
      in if r < 1 / 2 then f
         else if 1 / 2 < r then f + 1
         else if even f then f else f + 1)"

text \<open>
  The spacing of the doubles around a magnitude \<open>a\<close>. Below one the binades
  \<open>[1/2, 1)\<close>, \<open>[1/4, 1/2)\<close>, ... are searched downwards, starting with spacing
  \<open>2\<^sup>-\<^sup>5\<^sup>3\<close>; after 1021 halvings the spacing \<open>2\<^sup>-\<^sup>1\<^sup>0\<^sup>7\<^sup>4\<close> of the smallest normal
  binade is reached, which the subnormal numbers share. From one on the binades
  \<open>[1, 2)\<close>, \<open>[2, 4)\<close>, ... are searched upwards, starting with spacing \<open>2\<^sup>-\<^sup>5\<^sup>2\<close>.
\<close>

fun ulp_below :: "nat \<Rightarrow> rat \<Rightarrow> rat \<Rightarrow> rat \<Rightarrow> rat" where
  "ulp_below 0 t u a = u"
| "ulp_below (Suc n) t u a = (if t \<le> a then u else ulp_below n (t / 2) (u / 2) a)"

fun ulp_above :: "nat \<Rightarrow> rat \<Rightarrow> rat \<Rightarrow> rat \<Rightarrow> rat" where
  "ulp_above 0 t u a = u"
| "ulp_above (Suc n) t u a = (if a < t then u else ulp_above n (2 * t) (2 * u) a)"

definition ulp :: "rat \<Rightarrow> rat" where
  "ulp a = (if a < 1 then ulp_below 1021 (1 / 2) (1 / 2 ^ 53) a
            else ulp_above 1023 2 (1 / 2 ^ 52) a)"

definition round_double :: "rat \<Rightarrow> double" where
  "round_double x = (let u = ulp \<bar>x\<bar> in of_int (round_half_even (x / u)) * u)"

definition fadd :: "double \<Rightarrow> double \<Rightarrow> double" where
  "fadd a b = round_double (a + b)"

definition fmul :: "double \<Rightarrow> double \<Rightarrow> double" where
  "fmul a b = round_double (a * b)"

text \<open>Python's \<^verbatim>\<open>n / d\<close> on two integers is the correctly rounded quotient.\<close>

definition int_truediv :: "int \<Rightarrow> int \<Rightarrow> double" where
  "int_truediv n d = round_double (of_int n / of_int d)"

text \<open>
  \<^verbatim>\<open>round(x, n)\<close> on a float rounds the exact value of \<open>x\<close> to \<open>n\<close> decimal places,
  ties to even, and returns the double nearest to that decimal number.
\<close>

definition py_round :: "double \<Rightarrow> nat \<Rightarrow> double" where
  "py_round x n = round_double (of_int (round_half_even (x * 10 ^ n)) / 10 ^ n)"

section \<open>Prompt engine\<close>

text \<open>
  The texts of the prompt engine and of the stream are lists of characters of the 8-bit
  character type, \<^verbatim>\<open>len\<close> being the length of the list; the artifact manager below
  takes its content as a list of code points. The fixed instruction blocks of
  \<^verbatim>\<open>prompt_engine.py\<close> follow, line by line.
\<close>

definition DENSITY_EXECUTIVE_SUMMARY :: string where
  "DENSITY_EXECUTIVE_SUMMARY =
     ''OUTPUT_DENSITY: EXECUTIVE_SUMMARY\<newline>'' @
     ''- Provide only key insights and conclusions\<newline>'' @
     ''- Maximum 3-5 bullet points or brief paragraphs\<newline>'' @
     ''- Avoid technical details unless absolutely critical\<newline>'' @
     ''- Focus on actionable recommendations\<newline>'' @
     ''- Keep total response under 200 words''"

definition DENSITY_DETAILED_REPORT :: string where
  "DENSITY_DETAILED_REPORT =
     ''OUTPUT_DENSITY: DETAILED_REPORT\<newline>'' @
     ''- Provide comprehensive analysis with supporting evidence\<newline>'' @
     ''- Include relevant context and methodology\<newline>'' @
     ''- Balance depth with readability\<newline>'' @
     ''- Use structured formatting (headings, lists, paragraphs)\<newline>'' @
     ''- Target 300-500 words with clear organization''"

definition DENSITY_RAW_VERBOSE :: string where
  "DENSITY_RAW_VERBOSE =
     ''OUTPUT_DENSITY: RAW_VERBOSE\<newline>'' @
     ''- Include all relevant data points and calculations\<newline>'' @
     ''- Show your reasoning process step-by-step\<newline>'' @
     ''- Provide extensive context and background information\<newline>'' @
     ''- Include data sources, assumptions, and confidence levels\<newline>'' @
     ''- Aim for thorough coverage (500+ words if needed)''"

definition CREATIVITY_STRICTLY_FACTUAL :: string where
  "CREATIVITY_STRICTLY_FACTUAL =
     ''CREATIVITY_LEVEL: STRICTLY_FACTUAL\<newline>'' @
     ''- Base all statements on verified data and established facts\<newline>'' @
     ''- Avoid speculation or hypothetical scenarios\<newline>'' @
     ''- Use conservative, evidence-based language (e.g., \"data shows\" rather than \"might indicate\")\<newline>'' @
     ''- Cite sources or note data limitations when appropriate\<newline>'' @
     ''- Maintain objectivity and avoid interpretive leaps\<newline>'' @
     ''- Recommended Temperature: 0.2''"

definition CREATIVITY_BALANCED_INSIGHT :: string where
  "CREATIVITY_BALANCED_INSIGHT =
     ''CREATIVITY_LEVEL: BALANCED_INSIGHT\<newline>'' @
     ''- Blend factual analysis with reasonable inferences\<newline>'' @
     ''- Use moderate speculation, clearly labeled as such\<newline>'' @
     ''- Consider multiple perspectives and interpretations\<newline>'' @
     ''- Balance empirical data with thoughtful extrapolation\<newline>'' @
     ''- Acknowledge uncertainty where it exists\<newline>'' @
     ''- Recommended Temperature: 0.5''"

definition CREATIVITY_SPECULATIVE_CREATIVE :: string where
  "CREATIVITY_SPECULATIVE_CREATIVE =
     ''CREATIVITY_LEVEL: SPECULATIVE_CREATIVE\<newline>'' @
     ''- Generate novel insights and unexpected connections\<newline>'' @
     ''- Explore hypothetical scenarios and \"what-if\" thinking\<newline>'' @
     ''- Use creative framing, metaphors, and analogies\<newline>'' @
     ''- Challenge conventional interpretations\<newline>'' @
     ''- Embrace imaginative reasoning while noting speculative elements\<newline>'' @
     ''- Recommended Temperature: 0.9''"

definition CONSTRAINTS :: string where
  "CONSTRAINTS =
     ''CONSTRAINTS:\<newline>'' @
     ''- Respond in Markdown format for readability\<newline>'' @
     ''- Be transparent about uncertainty and assumptions\<newline>'' @
     ''- Maintain professional tone while matching the creativity level\<newline>''"

definition BASE_ANALYST :: string where
  "BASE_ANALYST =
     ''You are a financial analyst agent specialized in data-driven insights and market analysis.''"

definition BASE_WRITER :: string where
  "BASE_WRITER =
     ''You are a creative writer agent focused on compelling narratives and engaging content.''"

definition BASE_RESEARCHER :: string where
  "BASE_RESEARCHER =
     ''You are a research agent that gathers, synthesizes, and analyzes information from multiple sources.''"

definition BASE_PROMPTS :: "string \<rightharpoonup> string" where
  "BASE_PROMPTS =
     [''analyst'' \<mapsto> BASE_ANALYST,
      ''writer'' \<mapsto> BASE_WRITER,
      ''researcher'' \<mapsto> BASE_RESEARCHER]"

definition get_density_instruction :: "double \<Rightarrow> string" where
  "get_density_instruction x =
     (if x < round_double (3 / 10) then DENSITY_EXECUTIVE_SUMMARY
      else if x < round_double (7 / 10) then DENSITY_DETAILED_REPORT
      else DENSITY_RAW_VERBOSE)"

definition get_creativity_instruction :: "double \<Rightarrow> string" where
  "get_creativity_instruction y =
     (if y < round_double (3 / 10) then CREATIVITY_STRICTLY_FACTUAL
      else if y < round_double (7 / 10) then CREATIVITY_BALANCED_INSIGHT
      else CREATIVITY_SPECULATIVE_CREATIVE)"

definition get_temperature :: "double \<Rightarrow> double" where
  "get_temperature y = fadd (round_double (2 / 10)) (fmul y (round_double (7 / 10)))"

record prompt_components =
  pc_base_prompt :: string
  pc_creativity_modifier :: string
  pc_density_modifier :: string
  pc_final_system_prompt :: string
  pc_user_query :: string
  pc_temperature :: double

text \<open>
  The fields of a record carry a prefix naming the record, so that the parameters of the
  functions can keep the names they have in the source.

  \<^verbatim>\<open>BASE_PROMPTS.get(agent_role, BASE_PROMPTS["analyst"])\<close>: the default is the
  analyst entry, which the table has.
\<close>

definition build_prompt_components ::
  "string \<Rightarrow> double \<Rightarrow> double \<Rightarrow> string \<Rightarrow> prompt_components" where
  "build_prompt_components agent_role x y user_query =
     (let base_prompt =
            (case BASE_PROMPTS agent_role of Some p \<Rightarrow> p | None \<Rightarrow> BASE_ANALYST);
          creativity_modifier = get_creativity_instruction y;
          density_modifier = get_density_instruction x;
          final_system_prompt =
            base_prompt @ ''\<newline>\<newline>'' @
            creativity_modifier @ ''\<newline>\<newline>'' @
            density_modifier @ ''\<newline>\<newline>'' @
            CONSTRAINTS
      in \<lparr>pc_base_prompt = base_prompt,
          pc_creativity_modifier = creativity_modifier,
          pc_density_modifier = density_modifier,
          pc_final_system_prompt = final_system_prompt,
          pc_user_query = user_query,
          pc_temperature = get_temperature y\<rparr>)"

definition build_full_prompt :: "string \<Rightarrow> double \<Rightarrow> double \<Rightarrow> string \<Rightarrow> string" where
  "build_full_prompt agent_role x y user_query =
     (let components = build_prompt_components agent_role x y user_query
      in pc_final_system_prompt components @
         ''\<newline>\<newline>---\<newline>USER QUERY:\<newline>'' @ user_query @
         ''\<newline>\<newline>---\<newline>RESPONSE:\<newline>'')"

section \<open>Token tracker\<close>

definition COST_PER_1K_INPUT :: double where
  "COST_PER_1K_INPUT = round_double (75 / 10 ^ 6)"

definition COST_PER_1K_OUTPUT :: double where
  "COST_PER_1K_OUTPUT = round_double (3 / 10 ^ 4)"

definition estimate_tokens :: "string \<Rightarrow> int" where
  "estimate_tokens text = int (length text) div 4"

definition calculate_cost :: "int \<Rightarrow> int \<Rightarrow> double" where
  "calculate_cost input_tokens output_tokens =
     (let input_cost = fmul (int_truediv input_tokens 1000) COST_PER_1K_INPUT;
          output_cost = fmul (int_truediv output_tokens 1000) COST_PER_1K_OUTPUT
      in py_round (fadd input_cost output_cost) 6)"

record token_usage =
  tu_prompt_tokens :: int
  tu_completion_tokens :: int
  tu_total_tokens :: int
  tu_estimated_cost :: double

definition get_usage_summary :: "string \<Rightarrow> string \<Rightarrow> token_usage" where
  "get_usage_summary input_text output_text =
     (let input_tokens = estimate_tokens input_text;
          output_tokens = estimate_tokens output_text;
          total_tokens = input_tokens + output_tokens;
          cost = calculate_cost input_tokens output_tokens
      in \<lparr>tu_prompt_tokens = input_tokens,
          tu_completion_tokens = output_tokens,
          tu_total_tokens = total_tokens,
          tu_estimated_cost = cost\<rparr>)"

section \<open>Exceptions and request models\<close>

text \<open>A Python exception, with the message \<^verbatim>\<open>str(e)\<close> gives back.\<close>

datatype exn =
    FileNotFoundError string
  | ValidationError string
  | OSError string
  | UnicodeEncodeError string
  | Exception string

fun str :: "exn \<Rightarrow> string" where
  "str (FileNotFoundError m) = m"
| "str (ValidationError m) = m"
| "str (OSError m) = m"
| "str (UnicodeEncodeError m) = m"
| "str (Exception m) = m"

text \<open>
  What an endpoint answers instead of a result: the framework's rejection of a request
  body that does not validate against its model (status 422), or an
  \<^verbatim>\<open>HTTPException\<close> raised by the handler, with its status code and detail.
\<close>

datatype http_error =
    RequestValidationError
  | HTTPException nat string

record xy_pad_position =
  pos_x :: double
  pos_y :: double

record agent_execution_request =
  req_query :: string
  req_xy_position :: xy_pad_position
  req_agent_role :: string

text \<open>
  The field constraints of \<^verbatim>\<open>models.py\<close>: \<^verbatim>\<open>ge=0.0, le=1.0\<close> on both coordinates,
  \<^verbatim>\<open>min_length=1, max_length=2000\<close> on the query, and the \<^verbatim>\<open>Literal\<close> of the three
  roles. \<^verbatim>\<open>PromptPreviewRequest\<close> and \<^verbatim>\<open>AgentExecutionRequest\<close> declare the same
  fields with the same constraints.
\<close>

definition valid_xy_pad_position :: "xy_pad_position \<Rightarrow> bool" where
  "valid_xy_pad_position p \<longleftrightarrow> 0 \<le> pos_x p \<and> pos_x p \<le> 1 \<and> 0 \<le> pos_y p \<and> pos_y p \<le> 1"

definition valid_request :: "agent_execution_request \<Rightarrow> bool" where
  "valid_request r \<longleftrightarrow>
     1 \<le> length (req_query r) \<and> length (req_query r) \<le> 2000 \<and>
     valid_xy_pad_position (req_xy_position r) \<and>
     req_agent_role r \<in> {''analyst'', ''writer'', ''researcher''}"

text \<open>\<^verbatim>\<open>PromptComponents(**components)\<close>: the temperature field has \<^verbatim>\<open>ge=0.0, le=1.0\<close>.\<close>

definition PromptComponents :: "prompt_components \<Rightarrow> exn + prompt_components" where
  "PromptComponents c =
     (if 0 \<le> pc_temperature c \<and> pc_temperature c \<le> 1 then Inr c
      else Inl (ValidationError ''temperature''))"

text \<open>\<^verbatim>\<open>TokenUsage(**usage)\<close>: every field has \<^verbatim>\<open>ge=0\<close>.\<close>

definition TokenUsage :: "token_usage \<Rightarrow> exn + token_usage" where
  "TokenUsage u =
     (if 0 \<le> tu_prompt_tokens u \<and> 0 \<le> tu_completion_tokens u \<and>
         0 \<le> tu_total_tokens u \<and> 0 \<le> tu_estimated_cost u
      then Inr u
      else Inl (ValidationError ''token_usage''))"

section \<open>Artifact manager\<close>

record datetime =
  dt_year :: nat
  dt_month :: nat
  dt_day :: nat
  dt_hour :: nat
  dt_minute :: nat
  dt_second :: nat
  dt_microsecond :: nat

text \<open>
  The artifact manager encodes the content it is given, and what it does depends on the
  code points of the content: there the content is a list of code points, any number
  below \<open>0x110000\<close>, the surrogates \<open>0xD800\<close> to \<open>0xDFFF\<close> included, as in a Python
  \<^verbatim>\<open>str\<close>. \<open>code_points\<close> reads a text of the 8-bit character type, as the prompt engine
  and the stream have them, as the list of its code points.
\<close>

type_synonym pystr = "nat list"

definition code_points :: "string \<Rightarrow> pystr" where
  "code_points text = map of_char text"

record artifact_metadata =
  meta_artifact_id :: string
  meta_filename :: string
  meta_content :: pystr
  meta_created_at :: datetime
  meta_file_type :: string
  meta_size_bytes :: int
  meta_agent_role :: string

text \<open>
  The storage directory maps a file name to what the file holds: the text of a content
  file, or the JSON document of a metadata record. Pydantic writes the document with
  \<^verbatim>\<open>model_dump_json\<close> and reads it back, field by field, with
  \<^verbatim>\<open>model_validate_json\<close>; the document is modelled by the record it encodes.
\<close>

datatype stored_file = TextFile pystr | JsonFile artifact_metadata

type_synonym storage = "string \<rightharpoonup> stored_file"

text \<open>
  What the calls of one request draw from outside the program: the generative model,
  the configured output limit, the next \<^verbatim>\<open>uuid.uuid4().hex\<close>, the clock, and the
  paths of the storage directory that cannot be opened for writing, with the error
  raised there. The generative model answers a prompt with the texts of its chunks, in
  order, and possibly an exception raised once they have been delivered.
\<close>

record gen_response =
  gr_chunks :: "string list"
  gr_failure :: "exn option"

record env =
  generate_content :: "string \<Rightarrow> double \<Rightarrow> int \<Rightarrow> gen_response"
  max_output_tokens :: int
  uuid4_hex :: string
  utcnow :: datetime
  write_fault :: "string \<Rightarrow> exn option"

definition digit :: "nat \<Rightarrow> char" where
  "digit d = char_of (of_char CHR ''0'' + d mod 10)"

definition pad2 :: "nat \<Rightarrow> string" where
  "pad2 n = [digit (n div 10), digit n]"

definition pad4 :: "nat \<Rightarrow> string" where
  "pad4 n = [digit (n div 1000), digit (n div 100), digit (n div 10), digit n]"

text \<open>\<^verbatim>\<open>strftime('%Y%m%d_%H%M%S')\<close>, for the four-digit years of the clock.\<close>

definition strftime :: "datetime \<Rightarrow> string" where
  "strftime t =
     pad4 (dt_year t) @ pad2 (dt_month t) @ pad2 (dt_day t) @ ''_'' @
     pad2 (dt_hour t) @ pad2 (dt_minute t) @ pad2 (dt_second t)"

text \<open>
  \<^verbatim>\<open>content.encode('utf-8')\<close>: one to four bytes for a code point, by its range. A
  surrogate has no encoding and makes the call raise \<^verbatim>\<open>UnicodeEncodeError\<close>, whose message
  ends in \<^verbatim>\<open>surrogates not allowed\<close>. A number from \<open>0x110000\<close> on is not a code point
  and no \<^verbatim>\<open>str\<close> holds one; it is given no encoding either.
\<close>

definition encode_char :: "nat \<Rightarrow> nat list option" where
  "encode_char c =
     (if c < 0x80 then Some [c]
      else if c < 0x800 then Some [0xC0 + c div 0x40, 0x80 + c mod 0x40]
      else if 0xD800 \<le> c \<and> c < 0xE000 then None
      else if c < 0x10000 then
        Some [0xE0 + c div 0x1000, 0x80 + c div 0x40 mod 0x40, 0x80 + c mod 0x40]
      else if c < 0x110000 then
        Some [0xF0 + c div 0x40000, 0x80 + c div 0x1000 mod 0x40,
              0x80 + c div 0x40 mod 0x40, 0x80 + c mod 0x40]
      else None)"

fun encode_utf8 :: "pystr \<Rightarrow> exn + nat list" where
  "encode_utf8 [] = Inr []"
| "encode_utf8 (c # cs) =
     (case encode_char c of
        None \<Rightarrow> Inl (UnicodeEncodeError ''surrogates not allowed'')
      | Some b \<Rightarrow>
          (case encode_utf8 cs of
             Inl err \<Rightarrow> Inl err
           | Inr bs \<Rightarrow> Inr (b @ bs)))"

definition extensions :: "string \<rightharpoonup> string" where
  "extensions = [''markdown'' \<mapsto> ''md'', ''json'' \<mapsto> ''json'', ''text'' \<mapsto> ''txt'']"

text \<open>\<^verbatim>\<open>ArtifactMetadata(...)\<close>: the file type is a \<^verbatim>\<open>Literal\<close>, the size has \<^verbatim>\<open>ge=0\<close>.\<close>

definition ArtifactMetadata :: "artifact_metadata \<Rightarrow> exn + artifact_metadata" where
  "ArtifactMetadata m =
     (if meta_file_type m \<in> {''markdown'', ''json'', ''text''} \<and> 0 \<le> meta_size_bytes m
      then Inr m
      else Inl (ValidationError ''artifact_metadata''))"

text \<open>
  \<^verbatim>\<open>save_artifact\<close> returns its result together with the storage it leaves behind:
  an exception raised after the content file has been written leaves that file there.
  The content file is opened for writing, which creates it empty, and the write encodes
  the content: when the encoding raises, the empty file stays. The size is the length of
  \<^verbatim>\<open>content.encode('utf-8')\<close>, encoded once more.
\<close>

definition save_artifact ::
  "env \<Rightarrow> pystr \<Rightarrow> string \<Rightarrow> string \<Rightarrow> storage \<Rightarrow> (exn + artifact_metadata) \<times> storage" where
  "save_artifact e content agent_role file_type fs =
     (let artifact_id = ''art_'' @ take 12 (uuid4_hex e);
          timestamp = utcnow e;
          ext = (case extensions file_type of Some x \<Rightarrow> x | None \<Rightarrow> ''txt'');
          filename = artifact_id @ ''_'' @ strftime timestamp @ ''.'' @ ext
      in case write_fault e filename of
           Some err \<Rightarrow> (Inl err, fs)
         | None \<Rightarrow>
             (case encode_utf8 content of
                Inl err \<Rightarrow> (Inl err, fs(filename \<mapsto> TextFile []))
              | Inr written \<Rightarrow>
                  (let fs1 = fs(filename \<mapsto> TextFile content)
                   in case encode_utf8 content of
                        Inl err \<Rightarrow> (Inl err, fs1)
                      | Inr encoded \<Rightarrow>
                          (case ArtifactMetadata
                                  \<lparr>meta_artifact_id = artifact_id,
                                   meta_filename = filename,
                                   meta_content = content,
                                   meta_created_at = timestamp,
                                   meta_file_type = file_type,
                                   meta_size_bytes = int (length encoded),
                                   meta_agent_role = agent_role\<rparr> of
                             Inl err \<Rightarrow> (Inl err, fs1)
                           | Inr metadata \<Rightarrow>
                               (let metadata_path = artifact_id @ ''_meta.json''
                                in case write_fault e metadata_path of
                                     Some err \<Rightarrow> (Inl err, fs1)
                                   | None \<Rightarrow>
                                       (Inr metadata,
                                        fs1(metadata_path \<mapsto> JsonFile metadata)))))))"

definition model_validate_json :: "stored_file \<Rightarrow> exn + artifact_metadata" where
  "model_validate_json f =
     (case f of
        TextFile t \<Rightarrow> Inl (ValidationError ''artifact_metadata'')
      | JsonFile m \<Rightarrow> ArtifactMetadata m)"

definition get_artifact :: "string \<Rightarrow> storage \<Rightarrow> exn + artifact_metadata" where
  "get_artifact artifact_id fs =
     (let metadata_path = artifact_id @ ''_meta.json''
      in case fs metadata_path of
           None \<Rightarrow> Inl (FileNotFoundError (''Artifact '' @ artifact_id @ '' not found''))
         | Some metadata_json \<Rightarrow> model_validate_json metadata_json)"

section \<open>Gemini client\<close>

text \<open>
  \<^verbatim>\<open>stream_generate\<close> yields the text of every chunk whose text is not empty and
  re-raises any exception of the model as \<^verbatim>\<open>Exception("Gemini API error: ...")\<close>.
  The result is the fragments yielded and the exception that ended the stream, if any.
\<close>

definition stream_generate ::
  "env \<Rightarrow> string \<Rightarrow> double \<Rightarrow> int \<Rightarrow> string list \<times> exn option" where
  "stream_generate e prompt temperature max_tokens =
     (let response = generate_content e prompt temperature max_tokens
      in (filter (\<lambda>t. t \<noteq> []) (gr_chunks response),
          map_option (\<lambda>err. Exception (''Gemini API error: '' @ str err)) (gr_failure response)))"

section \<open>Endpoints\<close>

text \<open>
  An entry of the \<^verbatim>\<open>executions\<close> dictionary. The keys \<^verbatim>\<open>artifact_id\<close> and
  \<^verbatim>\<open>error\<close> are absent until the stream sets them. The status is the string the
  source stores: \<^verbatim>\<open>"pending"\<close>, \<^verbatim>\<open>"streaming"\<close>, \<^verbatim>\<open>"completed"\<close> or \<^verbatim>\<open>"error"\<close>.
\<close>

record execution =
  exec_request :: agent_execution_request
  exec_prompt_components :: prompt_components
  exec_status :: string
  exec_created_at :: datetime
  exec_artifact_id :: "string option"
  exec_error :: "string option"

record app_state =
  executions :: "string \<rightharpoonup> execution"
  artifacts :: storage

record agent_execution_response =
  resp_execution_id :: string
  resp_prompt_components :: prompt_components
  resp_stream_url :: string

text \<open>
  The server-sent events: \<^verbatim>\<open>token\<close> with its content, \<^verbatim>\<open>complete\<close> with the
  artifact identifier and the token usage, \<^verbatim>\<open>error\<close> with the message.
\<close>

datatype sse_event =
    TokenEvent string
  | CompleteEvent string token_usage
  | ErrorEvent string

definition preview_prompt :: "agent_execution_request \<Rightarrow> http_error + prompt_components" where
  "preview_prompt request =
     (let components =
            build_prompt_components (req_agent_role request)
              (pos_x (req_xy_position request)) (pos_y (req_xy_position request))
              (req_query request)
      in case PromptComponents components of
           Inr c \<Rightarrow> Inr c
         | Inl err \<Rightarrow>
             Inl (HTTPException 500 (''Failed to generate prompt preview: '' @ str err)))"

text \<open>
  The handler stores the execution before it builds the response, so the state is
  returned on both paths.
\<close>

definition execute_agent ::
  "env \<Rightarrow> agent_execution_request \<Rightarrow> app_state \<Rightarrow>
     (http_error + agent_execution_response) \<times> app_state" where
  "execute_agent e request st =
     (let execution_id = ''exec_'' @ take 12 (uuid4_hex e);
          components =
            build_prompt_components (req_agent_role request)
              (pos_x (req_xy_position request)) (pos_y (req_xy_position request))
              (req_query request);
          st1 = st\<lparr>executions := (executions st)(execution_id \<mapsto>
                  \<lparr>exec_request = request,
                   exec_prompt_components = components,
                   exec_status = ''pending'',
                   exec_created_at = utcnow e,
                   exec_artifact_id = None,
                   exec_error = None\<rparr>)\<rparr>
      in case PromptComponents components of
           Inr c \<Rightarrow>
             (Inr \<lparr>resp_execution_id = execution_id,
                   resp_prompt_components = c,
                   resp_stream_url = ''/api/v1/agent/stream/'' @ execution_id\<rparr>, st1)
         | Inl err \<Rightarrow>
             (Inl (HTTPException 500 (''Failed to create execution: '' @ str err)), st1))"

text \<open>
  The framework validates the request body against its model before it calls the
  handler, and answers 422 without calling it when the body does not validate.
\<close>

definition post_prompt_preview :: "agent_execution_request \<Rightarrow> http_error + prompt_components" where
  "post_prompt_preview request =
     (if valid_request request then preview_prompt request else Inl RequestValidationError)"

definition post_agent_execute ::
  "env \<Rightarrow> agent_execution_request \<Rightarrow> app_state \<Rightarrow>
     (http_error + agent_execution_response) \<times> app_state" where
  "post_agent_execute e request st =
     (if valid_request request then execute_agent e request st
      else (Inl RequestValidationError, st))"

text \<open>
  The \<^verbatim>\<open>except Exception\<close> branch of the generator: the events sent so far are
  followed by one \<^verbatim>\<open>error\<close> event, and the entry records the message.
\<close>

definition handle_exception ::
  "string \<Rightarrow> execution \<Rightarrow> sse_event list \<Rightarrow> exn \<Rightarrow> app_state \<Rightarrow>
     sse_event list \<times> app_state" where
  "handle_exception execution_id entry sent err st =
     (sent @ [ErrorEvent (str err)],
      st\<lparr>executions := (executions st)(execution_id \<mapsto>
            entry\<lparr>exec_status := ''error'', exec_error := Some (str err)\<rparr>)\<rparr>)"

text \<open>
  One run of the generator to its end: the events it yields, in order, and the state it
  leaves. \<open>execution\<close> is the dictionary entry the endpoint looked up; every
  assignment through \<^verbatim>\<open>executions[execution_id]\<close> updates that entry. The accumulated
  text goes to the artifact manager as the list of its code points.
\<close>

definition event_generator ::
  "env \<Rightarrow> string \<Rightarrow> execution \<Rightarrow> app_state \<Rightarrow> sse_event list \<times> app_state" where
  "event_generator e execution_id execution st =
     (let request = exec_request execution;
          prompt_components = exec_prompt_components execution;
          entry = execution\<lparr>exec_status := ''streaming''\<rparr>;
          st1 = st\<lparr>executions := (executions st)(execution_id \<mapsto> entry)\<rparr>;
          full_prompt =
            build_full_prompt (req_agent_role request)
              (pos_x (req_xy_position request)) (pos_y (req_xy_position request))
              (req_query request);
          temperature = pc_temperature prompt_components;
          (tokens, failure) = stream_generate e full_prompt temperature (max_output_tokens e);
          accumulated_content = concat tokens;
          sent = map TokenEvent tokens
      in case failure of
           Some err \<Rightarrow> handle_exception execution_id entry sent err st1
         | None \<Rightarrow>
             (case save_artifact e (code_points accumulated_content)
                     (req_agent_role request) ''markdown'' (artifacts st1) of
                (Inl err, fs) \<Rightarrow>
                  handle_exception execution_id entry sent err (st1\<lparr>artifacts := fs\<rparr>)
              | (Inr artifact, fs) \<Rightarrow>
                  (let st2 = st1\<lparr>artifacts := fs\<rparr>;
                       usage = get_usage_summary full_prompt accumulated_content
                   in case TokenUsage usage of
                        Inl err \<Rightarrow> handle_exception execution_id entry sent err st2
                      | Inr token_usage \<Rightarrow>
                          (sent @ [CompleteEvent (meta_artifact_id artifact) token_usage],
                           st2\<lparr>executions := (executions st2)(execution_id \<mapsto>
                                 entry\<lparr>exec_status := ''completed'',
                                       exec_artifact_id := Some (meta_artifact_id artifact)\<rparr>)\<rparr>))))"

definition stream_agent_response ::
  "env \<Rightarrow> string \<Rightarrow> app_state \<Rightarrow> (http_error + sse_event list) \<times> app_state" where
  "stream_agent_response e execution_id st =
     (case executions st execution_id of
        None \<Rightarrow> (Inl (HTTPException 404 ''Execution not found''), st)
      | Some execution \<Rightarrow>
          (let (events, st') = event_generator e execution_id execution st
           in (Inr events, st')))"

text \<open>
  What one run of the generator reads: the prompt it builds for an entry, and what the
  client yields for that prompt. Both are used to state the properties of the stream.
\<close>

definition full_prompt_of :: "execution \<Rightarrow> string" where
  "full_prompt_of execution =
     build_full_prompt (req_agent_role (exec_request execution))
       (pos_x (req_xy_position (exec_request execution)))
       (pos_y (req_xy_position (exec_request execution)))
       (req_query (exec_request execution))"

definition stream_of :: "env \<Rightarrow> execution \<Rightarrow> string list \<times> exn option" where
  "stream_of e execution =
     stream_generate e (full_prompt_of execution)
       (pc_temperature (exec_prompt_components execution)) (max_output_tokens e)"

text \<open>
  The number of bytes the UTF-8 standard gives a code point, by its range; used to state
  the size of an encoding.
\<close>

definition utf8_width :: "nat \<Rightarrow> nat" where
  "utf8_width c = (if c < 0x80 then 1 else if c < 0x800 then 2 else if c < 0x10000 then 3 else 4)"

section \<open>Example values\<close>

text \<open>
  A request, a clock, an environment whose model answers every prompt with the given
  chunks and failure, and a state with one execution, used in the concrete instances.
\<close>

definition example_request :: agent_execution_request where
  "example_request =
     \<lparr>req_query = ''Analyze Q4 risk'',
      req_xy_position = \<lparr>pos_x = 1 / 8, pos_y = 1 / 8\<rparr>,
      req_agent_role = ''analyst''\<rparr>"

definition example_clock :: datetime where
  "example_clock =
     \<lparr>dt_year = 2024, dt_month = 12, dt_day = 1,
      dt_hour = 9, dt_minute = 30, dt_second = 5, dt_microsecond = 0\<rparr>"

definition example_env :: "string list \<Rightarrow> exn option \<Rightarrow> env" where
  "example_env chunks failure =
     \<lparr>generate_content =
        (\<lambda>prompt temperature max_tokens. \<lparr>gr_chunks = chunks, gr_failure = failure\<rparr>),
      max_output_tokens = 2048,
      uuid4_hex = ''0123456789abcdef0123456789abcdef'',
      utcnow = example_clock,
      write_fault = (\<lambda>p. None)\<rparr>"

definition example_execution :: "string \<Rightarrow> string option \<Rightarrow> execution" where
  "example_execution status artifact_id =
     \<lparr>exec_request = example_request,
      exec_prompt_components =
        build_prompt_components ''analyst'' (1 / 8) (1 / 8) ''Analyze Q4 risk'',
      exec_status = status,
      exec_created_at = example_clock,
      exec_artifact_id = artifact_id,
      exec_error = None\<rparr>"

definition example_state :: "string \<Rightarrow> string option \<Rightarrow> app_state" where
  "example_state status artifact_id =
     \<lparr>executions = [''exec_0123456789ab'' \<mapsto> example_execution status artifact_id],
      artifacts = Map.empty\<rparr>"

section \<open>Properties of the rounding\<close>

lemma round_half_even_zero [simp]: "round_half_even 0 = 0"
  by (simp add: round_half_even_def)

lemma round_half_even_error: "\<bar>of_int (round_half_even z) - z\<bar> \<le> 1 / 2"
  unfolding round_half_even_def Let_def
  by (auto simp: abs_if; linarith)

lemma round_half_even_nonneg: "0 \<le> z \<Longrightarrow> 0 \<le> round_half_even z"
  unfolding round_half_even_def Let_def
  by (auto intro: order_trans [of 0 "\<lfloor>z\<rfloor>"])

lemma ulp_below_pos: "0 < u \<Longrightarrow> 0 < ulp_below n t u a"
  by (induction n t u a rule: ulp_below.induct) auto

lemma ulp_above_pos: "0 < u \<Longrightarrow> 0 < ulp_above n t u a"
  by (induction n t u a rule: ulp_above.induct) auto

lemma ulp_pos: "0 < ulp a"
  by (simp add: ulp_def ulp_below_pos ulp_above_pos)

lemma ulp_below_le: "0 < u \<Longrightarrow> ulp_below n t u a \<le> u"
proof (induction n t u a rule: ulp_below.induct)
  case (1 t u a)
  then show ?case by simp
next
  case (2 n t u a)
  show ?case
  proof (cases "t \<le> a")
    case True
    then show ?thesis by simp
  next
    case False
    with 2 have "ulp_below n (t / 2) (u / 2) a \<le> u / 2" by simp
    with False 2 show ?thesis by simp
  qed
qed

lemma round_double_zero [simp]: "round_double 0 = 0"
  by (simp add: round_double_def)

lemma round_double_nonneg: "0 \<le> x \<Longrightarrow> 0 \<le> round_double x"
  using ulp_pos [of "\<bar>x\<bar>"]
  by (simp add: round_double_def Let_def round_half_even_nonneg)

text \<open>Below one the doubles are at most \<open>2\<^sup>-\<^sup>5\<^sup>3\<close> apart, so rounding moves a number by at most half of that.\<close>

lemma round_double_error_below_one:
  assumes "\<bar>x\<bar> < 1"
  shows "\<bar>round_double x - x\<bar> \<le> 1 / 2 ^ 54"
proof -
  define u where "u = ulp \<bar>x\<bar>"
  have u: "0 < u" "u \<le> 1 / 2 ^ 53"
    using assms ulp_below_pos [of "1 / 2 ^ 53"] ulp_below_le [of "1 / 2 ^ 53"]
    by (simp_all add: u_def ulp_def)
  have "round_double x - x = (of_int (round_half_even (x / u)) - x / u) * u"
    using u by (simp add: round_double_def u_def [symmetric] Let_def algebra_simps)
  then have "\<bar>round_double x - x\<bar> = \<bar>of_int (round_half_even (x / u)) - x / u\<bar> * u"
    using u by (simp add: abs_mult)
  also have "\<dots> \<le> (1 / 2) * u"
    using round_half_even_error [of "x / u"] u by (intro mult_right_mono) simp_all
  also have "\<dots> \<le> 1 / 2 ^ 54" using u by simp
  finally show ?thesis .
qed

text \<open>
  The spacing is \<open>2\<^sup>e\<^sup>-\<^sup>5\<^sup>2\<close> on the binade \<open>[2\<^sup>e, 2\<^sup>e\<^sup>+\<^sup>1)\<close>, for the exponents of the
  normal range.
\<close>

lemma ulp_below_binade:
  "j \<le> n \<Longrightarrow> 0 < t \<Longrightarrow> t / 2 ^ j \<le> a \<Longrightarrow> j = 0 \<or> a < 2 * t / 2 ^ j \<Longrightarrow>
     ulp_below n t u a = u / 2 ^ j"
proof (induction n arbitrary: t u j)
  case 0
  then show ?case by simp
next
  case (Suc n)
  show ?case
  proof (cases j)
    case 0
    with Suc.prems show ?thesis by simp
  next
    case (Suc i)
    with Suc.prems have less: "a < t / 2 ^ i" by simp
    have "t / 2 ^ i \<le> t"
      using Suc.prems(2) by (simp add: divide_le_eq_1 field_simps)
    with less have nle: "\<not> t \<le> a" by simp
    have "ulp_below n (t / 2) (u / 2) a = (u / 2) / 2 ^ i"
      using Suc.prems less \<open>j = Suc i\<close> by (intro Suc.IH) simp_all
    with nle \<open>j = Suc i\<close> show ?thesis by simp
  qed
qed

lemma ulp_above_binade:
  "j \<le> n \<Longrightarrow> 0 < t \<Longrightarrow> a < t * 2 ^ j \<Longrightarrow> j = 0 \<or> t * 2 ^ j \<le> 2 * a \<Longrightarrow>
     ulp_above n t u a = u * 2 ^ j"
proof (induction n arbitrary: t u j)
  case 0
  then show ?case by simp
next
  case (Suc n)
  show ?case
  proof (cases j)
    case 0
    with Suc.prems show ?thesis by simp
  next
    case (Suc i)
    with Suc.prems have ge: "t * 2 ^ i \<le> a" by simp
    have "t \<le> t * 2 ^ i"
      using Suc.prems(2) by simp
    with ge have nless: "\<not> a < t" by simp
    have "ulp_above n (2 * t) (2 * u) a = (2 * u) * 2 ^ i"
      using Suc.prems ge \<open>j = Suc i\<close> by (intro Suc.IH) simp_all
    with nless \<open>j = Suc i\<close> show ?thesis by simp
  qed
qed

lemma ulp_small:
  assumes "1 \<le> j" "j \<le> 1022" "1 / 2 ^ j \<le> a" "a < 2 / 2 ^ j"
  shows "ulp a = 1 / 2 ^ (52 + j)"
proof -
  obtain i where j: "j = Suc i" using assms(1) by (cases j) simp_all
  have "(2::rat) / 2 ^ j \<le> 1" by (simp add: j)
  with assms(4) have "a < 1" by (rule less_le_trans)
  moreover have "ulp_below 1021 (1 / 2) (1 / 2 ^ 53) a = (1 / 2 ^ 53) / 2 ^ i"
    using assms j by (intro ulp_below_binade) simp_all
  ultimately show ?thesis by (simp add: ulp_def j power_add)
qed

lemma ulp_large:
  assumes "j \<le> 1023" "2 ^ j \<le> a" "a < 2 * 2 ^ j"
  shows "ulp a = 2 ^ j / 2 ^ 52"
proof -
  have "(1::rat) \<le> 2 ^ j" by simp
  with assms(2) have "\<not> a < 1" by linarith
  moreover have "ulp_above 1023 2 (1 / 2 ^ 52) a = (1 / 2 ^ 52) * 2 ^ j"
    using assms by (intro ulp_above_binade) simp_all
  ultimately show ?thesis by (simp add: ulp_def)
qed

lemma round_half_even_eqI: "\<bar>z - of_int k\<bar> < 1 / 2 \<Longrightarrow> round_half_even z = k"
  unfolding round_half_even_def Let_def
  by (auto simp: abs_if split: if_splits; linarith)

text \<open>How a rounding is computed by hand: find the binade, then the nearest significand.\<close>

lemma round_double_small:
  assumes "1 \<le> j" "j \<le> 1022" "1 / 2 ^ j \<le> \<bar>x\<bar>" "\<bar>x\<bar> < 2 / 2 ^ j"
    and "\<bar>x * 2 ^ (52 + j) - of_int k\<bar> < 1 / 2"
    and "r = of_int k / 2 ^ (52 + j)"
  shows "round_double x = r"
proof -
  have u: "ulp \<bar>x\<bar> = 1 / 2 ^ (52 + j)"
    using assms(1-4) by (rule ulp_small)
  have k: "round_half_even (x / (1 / 2 ^ (52 + j))) = k"
    using assms(5) by (intro round_half_even_eqI) simp
  show ?thesis
    unfolding round_double_def Let_def u k assms(6) by simp
qed

lemma round_double_large:
  assumes "j \<le> 1023" "2 ^ j \<le> \<bar>x\<bar>" "\<bar>x\<bar> < 2 * 2 ^ j"
    and "\<bar>x * 2 ^ 52 / 2 ^ j - of_int k\<bar> < 1 / 2"
    and "r = of_int k * 2 ^ j / 2 ^ 52"
  shows "round_double x = r"
proof -
  have u: "ulp \<bar>x\<bar> = 2 ^ j / 2 ^ 52"
    using assms(1-3) by (rule ulp_large)
  have k: "round_half_even (x / (2 ^ j / 2 ^ 52)) = k"
    using assms(4) by (intro round_half_even_eqI) simp
  show ?thesis
    unfolding round_double_def Let_def u k assms(5) by simp
qed

lemma round_half_even_tie:
  assumes "\<bar>z - of_int k\<bar> = 1 / 2" "even k"
  shows "round_half_even z = k"
proof -
  from assms(1) consider "z = of_int k + 1 / 2" | "z = of_int k - 1 / 2"
    by (auto simp: abs_if split: if_splits)
  then show ?thesis
  proof cases
    case 1
    then have "\<lfloor>z\<rfloor> = k" by (simp add: floor_unique)
    with 1 assms(2) show ?thesis by (simp add: round_half_even_def)
  next
    case 2
    then have "\<lfloor>z\<rfloor> = k - 1" by (simp add: floor_unique)
    with 2 assms(2) show ?thesis by (simp add: round_half_even_def)
  qed
qed

lemma round_double_small_tie:
  assumes "1 \<le> j" "j \<le> 1022" "1 / 2 ^ j \<le> \<bar>x\<bar>" "\<bar>x\<bar> < 2 / 2 ^ j"
    and "\<bar>x * 2 ^ (52 + j) - of_int k\<bar> = 1 / 2" "even k"
    and "r = of_int k / 2 ^ (52 + j)"
  shows "round_double x = r"
proof -
  have u: "ulp \<bar>x\<bar> = 1 / 2 ^ (52 + j)"
    using assms(1-4) by (rule ulp_small)
  have k: "round_half_even (x / (1 / 2 ^ (52 + j))) = k"
    using assms(5,6) by (intro round_half_even_tie) simp_all
  show ?thesis
    unfolding round_double_def Let_def u k assms(7) by simp
qed

text \<open>The doubles of the literals \<^verbatim>\<open>0.2\<close>, \<^verbatim>\<open>0.3\<close> and \<^verbatim>\<open>0.7\<close>.\<close>

lemma round_double_2_10: "round_double (2 / 10) = 3602879701896397 / 2 ^ 54"
  by (rule round_double_small [where j = 3 and k = 7205759403792794]) simp_all

lemma round_double_3_10: "round_double (3 / 10) = 5404319552844595 / 2 ^ 54"
  by (rule round_double_small [where j = 2 and k = 5404319552844595]) simp_all

lemma round_double_7_10: "round_double (7 / 10) = 3152519739159347 / 2 ^ 52"
  by (rule round_double_small [where j = 1 and k = 6305039478318694]) simp_all

text \<open>
  In the normal range a rounding moves a number by at most the fraction \<open>2\<^sup>-\<^sup>5\<^sup>3\<close> of
  itself.
\<close>

lemma ulp_below_rel:
  "0 < t \<Longrightarrow> u = t / 2 ^ 52 \<Longrightarrow> t / 2 ^ n \<le> a \<Longrightarrow> ulp_below n t u a \<le> a / 2 ^ 52"
proof (induction n arbitrary: t u)
  case 0
  then show ?case by (simp add: divide_right_mono)
next
  case (Suc n)
  show ?case
  proof (cases "t \<le> a")
    case True
    with Suc.prems show ?thesis by (simp add: divide_right_mono)
  next
    case False
    have "ulp_below n (t / 2) (u / 2) a \<le> a / 2 ^ 52"
      using Suc.prems by (intro Suc.IH) simp_all
    with False show ?thesis by simp
  qed
qed

lemma ulp_above_rel:
  "u = t / 2 ^ 53 \<Longrightarrow> t \<le> 2 * a \<Longrightarrow> ulp_above n t u a \<le> a / 2 ^ 52"
proof (induction n arbitrary: t u)
  case 0
  then have "t / 2 ^ 53 \<le> (2 * a) / 2 ^ 53" by (intro divide_right_mono) simp_all
  with 0 show ?case by simp
next
  case (Suc n)
  show ?case
  proof (cases "a < t")
    case True
    from Suc.prems have "t / 2 ^ 53 \<le> (2 * a) / 2 ^ 53" by (intro divide_right_mono) simp_all
    with True Suc.prems show ?thesis by simp
  next
    case False
    have "ulp_above n (2 * t) (2 * u) a \<le> a / 2 ^ 52"
      using Suc.prems False by (intro Suc.IH) simp_all
    with False show ?thesis by simp
  qed
qed

lemma ulp_rel:
  assumes "1 / 2 ^ 1022 \<le> a"
  shows "ulp a \<le> a / 2 ^ 52"
proof (cases "a < 1")
  case True
  have "ulp_below 1021 (1 / 2) (1 / 2 ^ 53) a \<le> a / 2 ^ 52"
    using assms by (intro ulp_below_rel) (simp_all add: power_Suc [symmetric] del: power_Suc)
  with True show ?thesis by (simp add: ulp_def)
next
  case False
  have "ulp_above 1023 2 (1 / 2 ^ 52) a \<le> a / 2 ^ 52"
    using False by (intro ulp_above_rel) simp_all
  with False show ?thesis by (simp add: ulp_def)
qed

lemma round_double_rel:
  assumes "0 \<le> x" "x = 0 \<or> 1 / 2 ^ 1022 \<le> x"
  shows "x * (1 - 1 / 2 ^ 53) \<le> round_double x \<and> round_double x \<le> x * (1 + 1 / 2 ^ 53)"
proof (cases "x = 0")
  case True
  then show ?thesis by simp
next
  case False
  with assms have n: "1 / 2 ^ 1022 \<le> x" by simp
  define u where "u = ulp x"
  have u: "0 < u" "u \<le> x / 2 ^ 52"
    using n ulp_pos [of x] ulp_rel [of x] by (simp_all add: u_def)
  have "round_double x = of_int (round_half_even (x / u)) * u"
    using assms(1) by (simp add: round_double_def u_def Let_def)
  then have "round_double x - x = (of_int (round_half_even (x / u)) - x / u) * u"
    using u by (simp add: algebra_simps)
  then have "\<bar>round_double x - x\<bar> = \<bar>of_int (round_half_even (x / u)) - x / u\<bar> * u"
    using u by (simp add: abs_mult)
  also have "\<dots> \<le> (1 / 2) * u"
    using round_half_even_error [of "x / u"] u by (intro mult_right_mono) simp_all
  also have "\<dots> \<le> x / 2 ^ 53" using u by simp
  finally show ?thesis by (simp add: abs_if algebra_simps split: if_splits)
qed

section \<open>Properties of the prompt engine\<close>

lemma pc_temperature_build:
  "pc_temperature (build_prompt_components agent_role x y user_query) = get_temperature y"
  by (simp add: build_prompt_components_def Let_def)

lemma get_temperature_error:
  assumes "0 \<le> y" "y \<le> 1"
  shows "\<bar>get_temperature y - (2 / 10 + y * (7 / 10))\<bar> \<le> 1 / 2 ^ 52"
proof -
  define c7 :: rat where "c7 = round_double (7 / 10)"
  define c2 :: rat where "c2 = round_double (2 / 10)"
  define p where "p = round_double (y * c7)"
  have c7: "c7 = 3152519739159347 / 2 ^ 52" by (simp only: c7_def round_double_7_10)
  have c2: "c2 = 3602879701896397 / 2 ^ 54" by (simp only: c2_def round_double_2_10)
  have yc: "0 \<le> y * c7" "y * c7 \<le> c7"
    using assms by (simp_all add: c7 mult_left_le_one_le)
  then have "\<bar>y * c7\<bar> < 1" by (simp add: c7)
  then have e1: "\<bar>p - y * c7\<bar> \<le> 1 / 2 ^ 54"
    unfolding p_def by (rule round_double_error_below_one)
  have e2: "\<bar>y * c7 - y * (7 / 10)\<bar> \<le> 1 / 2 ^ 54"
  proof -
    have "y * c7 - y * (7 / 10) = y * (c7 - 7 / 10)"
      by (simp only: right_diff_distrib)
    then have "\<bar>y * c7 - y * (7 / 10)\<bar> = y * \<bar>c7 - 7 / 10\<bar>"
      using assms by (simp only: abs_mult abs_of_nonneg)
    also have "\<dots> \<le> 1 * \<bar>c7 - 7 / 10\<bar>"
      using assms by (intro mult_right_mono) simp_all
    also have "\<dots> \<le> 1 / 2 ^ 54" by (simp add: c7)
    finally show ?thesis .
  qed
  have e3: "\<bar>c2 - 2 / 10\<bar> \<le> 1 / 2 ^ 56" by (simp add: c2)
  have "\<bar>c2 + p\<bar> < 1" using e1 yc by (simp add: c2 c7 abs_if split: if_splits)
  then have e4: "\<bar>round_double (c2 + p) - (c2 + p)\<bar> \<le> 1 / 2 ^ 54"
    by (rule round_double_error_below_one)
  have "get_temperature y = round_double (c2 + p)"
    by (simp only: get_temperature_def fadd_def fmul_def c2_def c7_def p_def)
  then show ?thesis using e1 e2 e3 e4 by (simp add: abs_if split: if_splits)
qed

text \<open>
  The temperature at the four values the specification names, each rounding computed
  by hand. At \<open>y = 1\<close> and at \<open>y = 0.9\<close> the exact sum lies halfway between two doubles
  and goes to the one with the even significand, which is not the double of the decimal
  number.
\<close>

lemma get_temperature_0: "get_temperature 0 = round_double (2 / 10)"
proof -
  have s: "round_double (3602879701896397 / 2 ^ 54) = 3602879701896397 / 2 ^ 54"
    by (rule round_double_small [where j = 3 and k = 7205759403792794]) simp_all
  show ?thesis
    unfolding get_temperature_def fadd_def fmul_def
    by (simp only: mult_zero_left round_double_zero add_0_right round_double_2_10 s)
qed

lemma get_temperature_0_1:
  "get_temperature (round_double (1 / 10)) = round_double (27 / 100)"
proof -
  have y: "round_double (1 / 10) = 3602879701896397 / 2 ^ 55"
    by (rule round_double_small [where j = 4 and k = 7205759403792794]) simp_all
  have p: "round_double ((3602879701896397 / 2 ^ 55) * (3152519739159347 / 2 ^ 52)) = 5044031582654955 / 2 ^ 56"
    by (rule round_double_small [where j = 4 and k = 5044031582654955]) simp_all
  have s: "round_double (3602879701896397 / 2 ^ 54 + 5044031582654955 / 2 ^ 56) = 607985949695017 / 2 ^ 51"
    by (rule round_double_small [where j = 2 and k = 4863887597560136]) simp_all
  have t: "round_double (27 / 100) = 607985949695017 / 2 ^ 51"
    by (rule round_double_small [where j = 2 and k = 4863887597560136]) simp_all
  show ?thesis
    unfolding get_temperature_def fadd_def fmul_def
    by (simp only: round_double_2_10 round_double_7_10 y p s t)
qed

lemma get_temperature_1:
  "get_temperature 1 = round_double (9 / 10) - 1 / 2 ^ 53"
proof -
  have p: "round_double (3152519739159347 / 2 ^ 52) = 3152519739159347 / 2 ^ 52"
    by (rule round_double_small [where j = 1 and k = 6305039478318694]) simp_all
  have s: "round_double (3602879701896397 / 2 ^ 54 + 3152519739159347 / 2 ^ 52) = 2026619832316723 / 2 ^ 51"
    by (rule round_double_small_tie [where j = 1 and k = 8106479329266892]) simp_all
  have t: "round_double (9 / 10) = 8106479329266893 / 2 ^ 53"
    by (rule round_double_small [where j = 1 and k = 8106479329266893]) simp_all
  have d: "(2026619832316723 / 2 ^ 51 :: rat) = 8106479329266893 / 2 ^ 53 - 1 / 2 ^ 53" by simp
  show ?thesis
    unfolding get_temperature_def fadd_def fmul_def
    by (simp only: mult_1 round_double_2_10 round_double_7_10 p s t d)
qed

lemma get_temperature_0_9:
  "get_temperature (round_double (9 / 10)) = round_double (83 / 100) + 1 / 2 ^ 53"
proof -
  have y: "round_double (9 / 10) = 8106479329266893 / 2 ^ 53"
    by (rule round_double_small [where j = 1 and k = 8106479329266893]) simp_all
  have p: "round_double ((8106479329266893 / 2 ^ 53) * (3152519739159347 / 2 ^ 52)) = 5674535530486825 / 2 ^ 53"
    by (rule round_double_small [where j = 1 and k = 5674535530486825]) simp_all
  have s: "round_double (3602879701896397 / 2 ^ 54 + 5674535530486825 / 2 ^ 53) = 467248461339689 / 2 ^ 49"
    by (rule round_double_small_tie [where j = 1 and k = 7475975381435024]) simp_all
  have t: "round_double (83 / 100) = 7475975381435023 / 2 ^ 53"
    by (rule round_double_small [where j = 1 and k = 7475975381435023]) simp_all
  have d: "(467248461339689 / 2 ^ 49 :: rat) = 7475975381435023 / 2 ^ 53 + 1 / 2 ^ 53" by simp
  show ?thesis
    unfolding get_temperature_def fadd_def fmul_def
    by (simp only: round_double_2_10 round_double_7_10 y p s t d)
qed

lemma density_blocks_distinct:
  "distinct [DENSITY_EXECUTIVE_SUMMARY, DENSITY_DETAILED_REPORT, DENSITY_RAW_VERBOSE]"
  by (simp add: DENSITY_EXECUTIVE_SUMMARY_def DENSITY_DETAILED_REPORT_def DENSITY_RAW_VERBOSE_def)

lemma creativity_blocks_distinct:
  "distinct [CREATIVITY_STRICTLY_FACTUAL, CREATIVITY_BALANCED_INSIGHT,
     CREATIVITY_SPECULATIVE_CREATIVE]"
  by (simp add: CREATIVITY_STRICTLY_FACTUAL_def CREATIVITY_BALANCED_INSIGHT_def
      CREATIVITY_SPECULATIVE_CREATIVE_def)

lemma thresholds_ordered: "round_double (3 / 10) < round_double (7 / 10)"
  by (simp only: round_double_3_10 round_double_7_10) simp

lemma block_offsets:
  "take (length b) (b @ n @ c @ n @ d @ n @ k) = b"
  "take (length c) (drop (length b + length n) (b @ n @ c @ n @ d @ n @ k)) = c"
  "take (length d) (drop (length b + length n + length c + length n)
     (b @ n @ c @ n @ d @ n @ k)) = d"
  "drop (length b + length n + length c + length n + length d + length n)
     (b @ n @ c @ n @ d @ n @ k) = k"
  by simp_all

text \<open>
  C4 (as amended). The temperature of the bundle is the binary64 value of
  \<^verbatim>\<open>0.2 + (y * 0.7)\<close>: it depends on the creativity value alone, not on the persona,
  the density or the query, and for a creativity value between 0 and 1 it lies within
  \<open>2\<^sup>-\<^sup>5\<^sup>2\<close> of the real number \<open>0.2 + 0.7 y\<close>. At \<open>y = 0\<close> it is the double 0.2 and at
  \<open>y = 0.1\<close> the double 0.27; at \<open>y = 1\<close> it is the double just below 0.9
  (0.8999999999999999) and at \<open>y = 0.9\<close> the double just above 0.83
  (0.8300000000000001).
\<close>

theorem temperature_linear_up_to_rounding:
  assumes "0 \<le> y" and "y \<le> 1"
  shows
    "pc_temperature (build_prompt_components agent_role x y user_query) =
       fadd (round_double (2 / 10)) (fmul y (round_double (7 / 10))) \<and>
     pc_temperature (build_prompt_components agent_role x y user_query) =
       pc_temperature (build_prompt_components agent_role' x' y user_query') \<and>
     \<bar>pc_temperature (build_prompt_components agent_role x y user_query)
        - (2 / 10 + y * (7 / 10))\<bar> \<le> 1 / 2 ^ 52 \<and>
     pc_temperature (build_prompt_components agent_role x 0 user_query) =
       round_double (2 / 10) \<and>
     pc_temperature (build_prompt_components agent_role x (round_double (1 / 10)) user_query) =
       round_double (27 / 100) \<and>
     pc_temperature (build_prompt_components agent_role x 1 user_query) =
       round_double (9 / 10) - 1 / 2 ^ 53 \<and>
     pc_temperature (build_prompt_components agent_role x (round_double (9 / 10)) user_query) =
       round_double (83 / 100) + 1 / 2 ^ 53"
  unfolding pc_temperature_build
  using get_temperature_error [OF assms] get_temperature_0 get_temperature_0_1
    get_temperature_1 get_temperature_0_9
  by (intro conjI) (simp_all only: get_temperature_def)

theorem temperature_linear_up_to_rounding_witness:
  "(0 :: rat) \<le> 1 / 2 \<and> (1 / 2 :: rat) \<le> 1 \<and>
   pc_temperature (build_prompt_components ''writer'' (1 / 2) (1 / 2) ''Write about AI trends'') =
     pc_temperature (build_prompt_components ''analyst'' 0 (1 / 2) ''Analyze Q4 risk'') \<and>
   \<bar>pc_temperature (build_prompt_components ''writer'' (1 / 2) (1 / 2) ''Write about AI trends'')
      - (2 / 10 + 1 / 2 * (7 / 10))\<bar> \<le> 1 / 2 ^ 52"
proof -
  have h1: "(0 :: rat) \<le> 1 / 2" and h2: "(1 / 2 :: rat) \<le> 1" by simp_all
  from temperature_linear_up_to_rounding [OF h1 h2] h1 h2 show ?thesis by blast
qed

text \<open>
  C4 (as stated) fails at the upper endpoint: at creativity 1 the temperature is neither
  the number \<open>0.2 + 1 \<sqdot> 0.7\<close> nor the double 0.9, and at creativity 0.9 it is not the
  double 0.83.
\<close>

theorem temperature_exact_counterexample:
  "pc_temperature (build_prompt_components ''analyst'' 0 1 ''Analyze Q4 risk'')
     \<noteq> 2 / 10 + 1 * (7 / 10) \<and>
   pc_temperature (build_prompt_components ''analyst'' 0 1 ''Analyze Q4 risk'')
     \<noteq> round_double (9 / 10) \<and>
   pc_temperature (build_prompt_components ''writer'' (round_double (9 / 10))
       (round_double (9 / 10)) ''Write about AI trends'')
     \<noteq> round_double (83 / 100)"
proof -
  have "round_double (9 / 10) = 8106479329266893 / 2 ^ 53"
    by (rule round_double_small [where j = 1 and k = 8106479329266893]) simp_all
  then show ?thesis
    unfolding pc_temperature_build get_temperature_1 get_temperature_0_9 by simp
qed

text \<open>
  C5. The density instruction is one of three fixed blocks, chosen by comparing the
  density with the doubles 0.3 and 0.7: below 0.3 the executive summary, from 0.3 and
  below 0.7 the detailed report, from 0.7 on the raw verbose block. The creativity
  instruction is chosen the same way among its three blocks. The boundary values 0.3
  and 0.7 themselves select the upper tier. The three blocks of each axis differ from
  one another, and nothing but these blocks is ever returned: the mapping is a step
  function.
\<close>

theorem instruction_tiers:
  "(x < round_double (3 / 10) \<longrightarrow> get_density_instruction x = DENSITY_EXECUTIVE_SUMMARY) \<and>
   (round_double (3 / 10) \<le> x \<and> x < round_double (7 / 10) \<longrightarrow>
      get_density_instruction x = DENSITY_DETAILED_REPORT) \<and>
   (round_double (7 / 10) \<le> x \<longrightarrow> get_density_instruction x = DENSITY_RAW_VERBOSE) \<and>
   (y < round_double (3 / 10) \<longrightarrow> get_creativity_instruction y = CREATIVITY_STRICTLY_FACTUAL) \<and>
   (round_double (3 / 10) \<le> y \<and> y < round_double (7 / 10) \<longrightarrow>
      get_creativity_instruction y = CREATIVITY_BALANCED_INSIGHT) \<and>
   (round_double (7 / 10) \<le> y \<longrightarrow>
      get_creativity_instruction y = CREATIVITY_SPECULATIVE_CREATIVE) \<and>
   get_density_instruction (round_double (3 / 10)) = DENSITY_DETAILED_REPORT \<and>
   get_density_instruction (round_double (7 / 10)) = DENSITY_RAW_VERBOSE \<and>
   get_creativity_instruction (round_double (3 / 10)) = CREATIVITY_BALANCED_INSIGHT \<and>
   get_creativity_instruction (round_double (7 / 10)) = CREATIVITY_SPECULATIVE_CREATIVE \<and>
   pc_density_modifier (build_prompt_components agent_role x y user_query) =
     get_density_instruction x \<and>
   pc_creativity_modifier (build_prompt_components agent_role x y user_query) =
     get_creativity_instruction y \<and>
   distinct [DENSITY_EXECUTIVE_SUMMARY, DENSITY_DETAILED_REPORT, DENSITY_RAW_VERBOSE] \<and>
   distinct [CREATIVITY_STRICTLY_FACTUAL, CREATIVITY_BALANCED_INSIGHT,
     CREATIVITY_SPECULATIVE_CREATIVE]"
proof -
  note lt = thresholds_ordered
  have tiers:
    "(t < round_double (3 / 10) \<longrightarrow> get_density_instruction t = DENSITY_EXECUTIVE_SUMMARY) \<and>
     (round_double (3 / 10) \<le> t \<and> t < round_double (7 / 10) \<longrightarrow>
        get_density_instruction t = DENSITY_DETAILED_REPORT) \<and>
     (round_double (7 / 10) \<le> t \<longrightarrow> get_density_instruction t = DENSITY_RAW_VERBOSE) \<and>
     (t < round_double (3 / 10) \<longrightarrow> get_creativity_instruction t = CREATIVITY_STRICTLY_FACTUAL) \<and>
     (round_double (3 / 10) \<le> t \<and> t < round_double (7 / 10) \<longrightarrow>
        get_creativity_instruction t = CREATIVITY_BALANCED_INSIGHT) \<and>
     (round_double (7 / 10) \<le> t \<longrightarrow>
        get_creativity_instruction t = CREATIVITY_SPECULATIVE_CREATIVE)" for t
    using lt unfolding get_density_instruction_def get_creativity_instruction_def
    by auto
  have comps:
    "pc_density_modifier (build_prompt_components agent_role x y user_query) =
       get_density_instruction x"
    "pc_creativity_modifier (build_prompt_components agent_role x y user_query) =
       get_creativity_instruction y"
    by (simp_all add: build_prompt_components_def Let_def)
  show ?thesis
    using tiers [of x] tiers [of y] tiers [of "round_double (3 / 10)"]
      tiers [of "round_double (7 / 10)"] lt comps
      density_blocks_distinct creativity_blocks_distinct
    by (simp del: distinct.simps)
qed

theorem instruction_tiers_witness:
  "get_density_instruction (1 / 8) = DENSITY_EXECUTIVE_SUMMARY \<and>
   get_density_instruction (1 / 2) = DENSITY_DETAILED_REPORT \<and>
   get_density_instruction (7 / 8) = DENSITY_RAW_VERBOSE \<and>
   get_creativity_instruction (1 / 8) = CREATIVITY_STRICTLY_FACTUAL \<and>
   get_creativity_instruction (1 / 2) = CREATIVITY_BALANCED_INSIGHT \<and>
   get_creativity_instruction (7 / 8) = CREATIVITY_SPECULATIVE_CREATIVE"
  using instruction_tiers [of "1 / 8" "1 / 8"] instruction_tiers [of "1 / 2" "1 / 2"]
    instruction_tiers [of "7 / 8" "7 / 8"]
  by (simp add: round_double_3_10 round_double_7_10)

text \<open>
  C7. The final system prompt is the persona's base text, then the creativity block,
  then the density block, then the constraints block, in this order and separated by
  blank lines; each block starts after the end of the one before it.
\<close>

theorem final_system_prompt_order:
  "pc_final_system_prompt (build_prompt_components agent_role x y user_query) =
     pc_base_prompt (build_prompt_components agent_role x y user_query) @ ''\<newline>\<newline>'' @
     pc_creativity_modifier (build_prompt_components agent_role x y user_query) @ ''\<newline>\<newline>'' @
     pc_density_modifier (build_prompt_components agent_role x y user_query) @ ''\<newline>\<newline>'' @
     CONSTRAINTS \<and>
   pc_base_prompt (build_prompt_components agent_role x y user_query) =
     (case BASE_PROMPTS agent_role of Some p \<Rightarrow> p | None \<Rightarrow> BASE_ANALYST) \<and>
   pc_creativity_modifier (build_prompt_components agent_role x y user_query) =
     get_creativity_instruction y \<and>
   pc_density_modifier (build_prompt_components agent_role x y user_query) =
     get_density_instruction x \<and>
   (let c = build_prompt_components agent_role x y user_query;
        s = pc_final_system_prompt c;
        i1 = length (pc_base_prompt c) + 2;
        i2 = i1 + length (pc_creativity_modifier c) + 2;
        i3 = i2 + length (pc_density_modifier c) + 2
    in take (length (pc_base_prompt c)) s = pc_base_prompt c \<and>
       take (length (pc_creativity_modifier c)) (drop i1 s) = pc_creativity_modifier c \<and>
       take (length (pc_density_modifier c)) (drop i2 s) = pc_density_modifier c \<and>
       drop i3 s = CONSTRAINTS)"
proof -
  define n :: string where "n = ''\<newline>\<newline>''"
  have len: "length n = 2" by (simp add: n_def)
  define b where "b = (case BASE_PROMPTS agent_role of Some p \<Rightarrow> p | None \<Rightarrow> BASE_ANALYST)"
  define c where "c = get_creativity_instruction y"
  define d where "d = get_density_instruction x"
  have built: "build_prompt_components agent_role x y user_query =
      \<lparr>pc_base_prompt = b, pc_creativity_modifier = c, pc_density_modifier = d,
       pc_final_system_prompt = b @ n @ c @ n @ d @ n @ CONSTRAINTS,
       pc_user_query = user_query, pc_temperature = get_temperature y\<rparr>"
    by (simp add: build_prompt_components_def Let_def b_def c_def d_def n_def)
  show ?thesis
    unfolding built Let_def
    using block_offsets [of b n c d CONSTRAINTS]
    by (simp add: len b_def [symmetric] c_def [symmetric] d_def [symmetric] n_def [symmetric]
        add.assoc)
qed

text \<open>
  C8. An agent role outside analyst, writer and researcher does not make the derivation
  fail: the bundle is the one of the analyst at the same position and query, with the
  analyst's base text.
\<close>

theorem unknown_role_falls_back:
  "agent_role \<notin> {''analyst'', ''writer'', ''researcher''} \<Longrightarrow>
     build_prompt_components agent_role x y user_query =
       build_prompt_components ''analyst'' x y user_query \<and>
     pc_base_prompt (build_prompt_components agent_role x y user_query) = BASE_ANALYST"
  by (simp add: build_prompt_components_def Let_def BASE_PROMPTS_def)

theorem unknown_role_falls_back_witness:
  "''poet'' \<notin> {''analyst'', ''writer'', ''researcher''} \<and>
   build_prompt_components ''poet'' (1 / 2) (1 / 2) ''Write about AI trends'' =
     build_prompt_components ''analyst'' (1 / 2) (1 / 2) ''Write about AI trends'' \<and>
   pc_base_prompt (build_prompt_components ''poet'' (1 / 2) (1 / 2) ''Write about AI trends'') =
     BASE_ANALYST"
proof -
  have h: "''poet'' \<notin> {''analyst'', ''writer'', ''researcher''}" by simp
  from unknown_role_falls_back [OF h] h show ?thesis by blast
qed

section \<open>Properties of the token tracker\<close>

lemma estimate_tokens_floor: "estimate_tokens text = \<lfloor>(of_nat (length text) :: rat) / 4\<rfloor>"
proof -
  have "\<lfloor>(of_int (int (length text)) :: rat) / of_int 4\<rfloor> = int (length text) div 4"
    by (rule floor_divide_of_int_eq)
  then show ?thesis by (simp add: estimate_tokens_def)
qed

lemma estimate_tokens_nonneg: "0 \<le> estimate_tokens text"
  by (simp add: estimate_tokens_def)

lemma py_round_nonneg: "0 \<le> x \<Longrightarrow> 0 \<le> py_round x n"
  by (simp add: py_round_def round_double_nonneg round_half_even_nonneg)

lemma calculate_cost_nonneg:
  assumes "0 \<le> input_tokens" "0 \<le> output_tokens"
  shows "0 \<le> calculate_cost input_tokens output_tokens"
proof -
  have a: "0 \<le> fmul (int_truediv input_tokens 1000) COST_PER_1K_INPUT"
    using assms(1)
    by (simp add: fmul_def int_truediv_def COST_PER_1K_INPUT_def round_double_nonneg)
  have b: "0 \<le> fmul (int_truediv output_tokens 1000) COST_PER_1K_OUTPUT"
    using assms(2)
    by (simp add: fmul_def int_truediv_def COST_PER_1K_OUTPUT_def round_double_nonneg)
  from a b show ?thesis
    by (simp add: calculate_cost_def Let_def fadd_def py_round_nonneg round_double_nonneg)
qed

lemma calculate_cost_zero: "calculate_cost 0 0 = 0"
  by (simp add: calculate_cost_def Let_def fadd_def fmul_def int_truediv_def py_round_def)

lemma TokenUsage_get_usage_summary:
  "TokenUsage (get_usage_summary input_text output_text) =
     Inr (get_usage_summary input_text output_text)"
  by (simp add: TokenUsage_def get_usage_summary_def Let_def estimate_tokens_nonneg
      calculate_cost_nonneg)

text \<open>
  A cost where double arithmetic and exact arithmetic part: the exact sum for 60704 and
  46309 tokens is 0.0184455, a tie that would round to 0.018446; the sum of the two
  rounded products lies below the tie and rounds to 0.018445.
\<close>

lemma calculate_cost_example: "calculate_cost 60704 46309 = round_double (18445 / 10 ^ 6)"
proof -
  have a: "round_double (60704 / 1000) = 8543328493121831 / 2 ^ 47"
    by (rule round_double_large [where j = 5 and k = 8543328493121831]) simp_all
  have b: "round_double (46309 / 1000) = 1629353087061721 / 2 ^ 45"
    by (rule round_double_large [where j = 5 and k = 6517412348246884]) simp_all
  have ci: "round_double (75 / 10 ^ 6) = 5534023222112865 / 2 ^ 66"
    by (rule round_double_small [where j = 14 and k = 5534023222112865]) simp_all
  have co: "round_double (3 / 10 ^ 4) = 5534023222112865 / 2 ^ 64"
    by (rule round_double_small [where j = 12 and k = 5534023222112865]) simp_all
  have pa: "round_double (8543328493121831 / 2 ^ 47 * (5534023222112865 / 2 ^ 66)) = 5249021026174053 / 2 ^ 60"
    by (rule round_double_small [where j = 8 and k = 5249021026174053]) simp_all
  have pb: "round_double (1629353087061721 / 2 ^ 45 * (5534023222112865 / 2 ^ 64)) = 4004298146762885 / 2 ^ 58"
    by (rule round_double_small [where j = 7 and k = 8008596293525770]) simp_all
  have s: "round_double (5249021026174053 / 2 ^ 60 + 4004298146762885 / 2 ^ 58) = 2658276701653199 / 2 ^ 57"
    by (rule round_double_small [where j = 6 and k = 5316553403306398]) simp_all
  have q: "round_half_even (2658276701653199 / 2 ^ 57 * 10 ^ 6) = 18445"
    by (rule round_half_even_eqI) simp
  show ?thesis
    unfolding calculate_cost_def Let_def fadd_def fmul_def int_truediv_def py_round_def
      COST_PER_1K_INPUT_def COST_PER_1K_OUTPUT_def
    by (simp only: a b ci co pa pb s q of_int_numeral)
qed

lemma normal_from_40:
  assumes "1 / 2 ^ 40 \<le> (x :: rat)"
  shows "x = 0 \<or> 1 / 2 ^ 1022 \<le> x"
proof -
  have "(1 :: rat) / 2 ^ 1022 \<le> 1 / 2 ^ 40" by simp
  with assms show ?thesis by linarith
qed

lemma COST_PER_1K_INPUT_value: "COST_PER_1K_INPUT = 5534023222112865 / 2 ^ 66"
  unfolding COST_PER_1K_INPUT_def
  by (rule round_double_small [where j = 14 and k = 5534023222112865]) simp_all

lemma COST_PER_1K_OUTPUT_value: "COST_PER_1K_OUTPUT = 5534023222112865 / 2 ^ 64"
  unfolding COST_PER_1K_OUTPUT_def
  by (rule round_double_small [where j = 12 and k = 5534023222112865]) simp_all

text \<open>
  One rounded product of the cost: a token count over 1000, times a price \<open>C\<close> that is
  the double of the decimal price \<open>c\<close>. Three roundings are in it, each moving the value
  by at most the fraction \<open>2\<^sup>-\<^sup>5\<^sup>3\<close>.
\<close>

lemma rounded_product:
  assumes n: "0 \<le> n"
    and C: "c * (1 - 1 / 2 ^ 53) \<le> C" "C \<le> c * (1 + 1 / 2 ^ 53)" "1 / 2 ^ 20 \<le> c" "c \<le> 1"
  defines "p \<equiv> round_double (round_double (of_int n / 1000) * C)"
  shows "of_int n / 1000 * c * (1 - 1 / 2 ^ 51) \<le> p"
    and "p \<le> of_int n / 1000 * c * (1 + 1 / 2 ^ 51)"
    and "n = 0 \<longrightarrow> p = 0"
    and "1 \<le> n \<longrightarrow> 1 / 2 ^ 32 \<le> p"
proof -
  define x :: rat where "x = of_int n / 1000"
  define a where "a = round_double x"
  have x0: "0 \<le> x" using n by (simp add: x_def)
  have C0: "0 \<le> C" "1 / 2 ^ 21 \<le> C" using C by simp_all
  have xn: "x = 0 \<or> 1 / 2 ^ 1022 \<le> x"
  proof (cases "n = 0")
    case True
    then show ?thesis by (simp add: x_def)
  next
    case False
    with n have "1 \<le> n" by simp
    then have "(1 :: rat) \<le> of_int n" by simp
    then have "1 / 2 ^ 40 \<le> x" by (simp add: x_def)
    then show ?thesis by (rule normal_from_40)
  qed
  have a: "x * (1 - 1 / 2 ^ 53) \<le> a" "a \<le> x * (1 + 1 / 2 ^ 53)"
    using round_double_rel [OF x0 xn] by (simp_all add: a_def)
  have a0: "0 \<le> a" using x0 by (simp add: a_def round_double_nonneg)
  have ac0: "0 \<le> a * C" using a0 C0 by simp
  have acl: "x * (1 - 1 / 2 ^ 53) * (c * (1 - 1 / 2 ^ 53)) \<le> a * C"
    using a(1) C(1) x0 C(3) by (intro mult_mono) simp_all
  have acu: "a * C \<le> x * (1 + 1 / 2 ^ 53) * (c * (1 + 1 / 2 ^ 53))"
    using a(2) C(2) a0 x0 C0 C(3) by (intro mult_mono) simp_all
  have xc0: "0 \<le> x * c" using x0 C(3) by simp
  have acn: "a * C = 0 \<or> 1 / 2 ^ 1022 \<le> a * C"
  proof (cases "n = 0")
    case True
    then show ?thesis by (simp add: a_def x_def)
  next
    case False
    with n have "1 \<le> n" by simp
    then have "(1 :: rat) \<le> of_int n" by simp
    then have x1: "1 / 1000 \<le> x" by (simp add: x_def)
    have "(1 :: rat) / 2 ^ 40 \<le> 1 / 1000 * (1 - 1 / 2 ^ 53) * (1 / 2 ^ 20 * (1 - 1 / 2 ^ 53))"
      by simp
    also have "\<dots> \<le> x * (1 - 1 / 2 ^ 53) * (c * (1 - 1 / 2 ^ 53))"
      using x1 C(3) by (intro mult_mono) simp_all
    also note acl
    finally show ?thesis by (rule normal_from_40)
  qed
  have p: "a * C * (1 - 1 / 2 ^ 53) \<le> p" "p \<le> a * C * (1 + 1 / 2 ^ 53)"
    using round_double_rel [OF ac0 acn] by (simp_all add: p_def a_def x_def)
  have lo: "x * c * (1 - 1 / 2 ^ 51)
      \<le> x * (1 - 1 / 2 ^ 53) * (c * (1 - 1 / 2 ^ 53)) * (1 - 1 / 2 ^ 53)"
  proof -
    have "(1 :: rat) - 1 / 2 ^ 51 \<le> (1 - 1 / 2 ^ 53) * (1 - 1 / 2 ^ 53) * (1 - 1 / 2 ^ 53)"
      by simp
    then have "x * c * (1 - 1 / 2 ^ 51)
        \<le> x * c * ((1 - 1 / 2 ^ 53) * (1 - 1 / 2 ^ 53) * (1 - 1 / 2 ^ 53))"
      using xc0 by (rule mult_left_mono)
    then show ?thesis by (simp add: mult_ac)
  qed
  have hi: "x * (1 + 1 / 2 ^ 53) * (c * (1 + 1 / 2 ^ 53)) * (1 + 1 / 2 ^ 53)
      \<le> x * c * (1 + 1 / 2 ^ 51)"
  proof -
    have "(1 + 1 / 2 ^ 53) * (1 + 1 / 2 ^ 53) * (1 + 1 / 2 ^ 53) \<le> (1 :: rat) + 1 / 2 ^ 51"
      by simp
    then have "x * c * ((1 + 1 / 2 ^ 53) * (1 + 1 / 2 ^ 53) * (1 + 1 / 2 ^ 53))
        \<le> x * c * (1 + 1 / 2 ^ 51)"
      using xc0 by (rule mult_left_mono)
    then show ?thesis by (simp add: mult_ac)
  qed
  have "x * (1 - 1 / 2 ^ 53) * (c * (1 - 1 / 2 ^ 53)) * (1 - 1 / 2 ^ 53)
      \<le> a * C * (1 - 1 / 2 ^ 53)"
    using acl by (intro mult_right_mono) simp_all
  with lo p(1) show "of_int n / 1000 * c * (1 - 1 / 2 ^ 51) \<le> p"
    unfolding x_def by linarith
  have "a * C * (1 + 1 / 2 ^ 53)
      \<le> x * (1 + 1 / 2 ^ 53) * (c * (1 + 1 / 2 ^ 53)) * (1 + 1 / 2 ^ 53)"
    using acu by (intro mult_right_mono) simp_all
  with hi p(2) show "p \<le> of_int n / 1000 * c * (1 + 1 / 2 ^ 51)"
    unfolding x_def by linarith
  show "n = 0 \<longrightarrow> p = 0"
    by (simp add: p_def)
  show "1 \<le> n \<longrightarrow> 1 / 2 ^ 32 \<le> p"
  proof
    assume "1 \<le> n"
    then have "(1 :: rat) \<le> of_int n" by simp
    then have x1: "1 / 1000 \<le> x" by (simp add: x_def)
    have xc: "1 / 1000 * (1 / 2 ^ 20) \<le> x * c"
      using x1 C(3) by (intro mult_mono) simp_all
    have "(1 :: rat) / 2 ^ 32 \<le> 1 / 1000 * (1 / 2 ^ 20) * (1 - 1 / 2 ^ 51)"
      by simp
    also have "\<dots> \<le> x * c * (1 - 1 / 2 ^ 51)"
      using xc by (intro mult_right_mono) simp_all
    also have "\<dots> \<le> p"
      using \<open>of_int n / 1000 * c * (1 - 1 / 2 ^ 51) \<le> p\<close> by (simp add: x_def)
    finally show "1 / 2 ^ 32 \<le> p" .
  qed
qed

text \<open>
  The cost against the exact value of the formula. \<open>k\<close> is the number of millionths
  the cost is rounded to: it is within half a millionth of the exact value, up to the
  rounding of the four operations before it, and the cost is the double of \<open>k\<close>
  millionths.
\<close>

lemma calculate_cost_error:
  assumes "0 \<le> i" "0 \<le> j"
  shows "\<exists>k. calculate_cost i j = round_double (of_int k / 10 ^ 6) \<and> 0 \<le> k \<and>
     \<bar>(of_int k / 10 ^ 6 :: rat)
        - (of_int i / 1000 * (75 / 10 ^ 6) + of_int j / 1000 * (3 / 10 ^ 4))\<bar>
       \<le> 1 / (2 * 10 ^ 6) +
          (of_int i / 1000 * (75 / 10 ^ 6) + of_int j / 1000 * (3 / 10 ^ 4)) / 2 ^ 50 \<and>
     \<bar>calculate_cost i j - (of_int i / 1000 * (75 / 10 ^ 6) + of_int j / 1000 * (3 / 10 ^ 4))\<bar>
       \<le> 1 / (2 * 10 ^ 6) +
          (of_int i / 1000 * (75 / 10 ^ 6) + of_int j / 1000 * (3 / 10 ^ 4) + 1) / 2 ^ 50"
proof -
  define Ea :: rat where "Ea = of_int i / 1000 * (75 / 10 ^ 6)"
  define Eb :: rat where "Eb = of_int j / 1000 * (3 / 10 ^ 4)"
  define E where "E = Ea + Eb"
  define pa where "pa = round_double (round_double (of_int i / 1000) * COST_PER_1K_INPUT)"
  define pb where "pb = round_double (round_double (of_int j / 1000) * COST_PER_1K_OUTPUT)"
  define s where "s = round_double (pa + pb)"
  define k where "k = round_half_even (s * 10 ^ 6)"
  define K :: rat where "K = of_int k / 10 ^ 6"
  have cost: "calculate_cost i j = round_double K"
    by (simp add: calculate_cost_def Let_def fadd_def fmul_def int_truediv_def py_round_def
        pa_def pb_def s_def k_def K_def)
  have E0: "0 \<le> Ea" "0 \<le> Eb" "0 \<le> E"
    using assms by (simp_all add: Ea_def Eb_def E_def)
  have a: "Ea * (1 - 1 / 2 ^ 51) \<le> pa" "pa \<le> Ea * (1 + 1 / 2 ^ 51)"
      "i = 0 \<longrightarrow> pa = 0" "1 \<le> i \<longrightarrow> 1 / 2 ^ 32 \<le> pa"
  proof -
    have c: "75 / 10 ^ 6 * (1 - 1 / 2 ^ 53) \<le> COST_PER_1K_INPUT"
      "COST_PER_1K_INPUT \<le> 75 / 10 ^ 6 * (1 + 1 / 2 ^ 53)"
      "(1 :: rat) / 2 ^ 20 \<le> 75 / 10 ^ 6" "(75 :: rat) / 10 ^ 6 \<le> 1"
      by (simp_all add: COST_PER_1K_INPUT_value)
    note r = rounded_product [OF assms(1) c]
    from r(1) show "Ea * (1 - 1 / 2 ^ 51) \<le> pa" by (simp only: pa_def Ea_def)
    from r(2) show "pa \<le> Ea * (1 + 1 / 2 ^ 51)" by (simp only: pa_def Ea_def)
    from r(3) show "i = 0 \<longrightarrow> pa = 0" by (simp only: pa_def)
    from r(4) show "1 \<le> i \<longrightarrow> 1 / 2 ^ 32 \<le> pa" by (simp only: pa_def)
  qed
  have b: "Eb * (1 - 1 / 2 ^ 51) \<le> pb" "pb \<le> Eb * (1 + 1 / 2 ^ 51)"
      "j = 0 \<longrightarrow> pb = 0" "1 \<le> j \<longrightarrow> 1 / 2 ^ 32 \<le> pb"
  proof -
    have c: "3 / 10 ^ 4 * (1 - 1 / 2 ^ 53) \<le> COST_PER_1K_OUTPUT"
      "COST_PER_1K_OUTPUT \<le> 3 / 10 ^ 4 * (1 + 1 / 2 ^ 53)"
      "(1 :: rat) / 2 ^ 20 \<le> 3 / 10 ^ 4" "(3 :: rat) / 10 ^ 4 \<le> 1"
      by (simp_all add: COST_PER_1K_OUTPUT_value)
    note r = rounded_product [OF assms(2) c]
    from r(1) show "Eb * (1 - 1 / 2 ^ 51) \<le> pb" by (simp only: pb_def Eb_def)
    from r(2) show "pb \<le> Eb * (1 + 1 / 2 ^ 51)" by (simp only: pb_def Eb_def)
    from r(3) show "j = 0 \<longrightarrow> pb = 0" by (simp only: pb_def)
    from r(4) show "1 \<le> j \<longrightarrow> 1 / 2 ^ 32 \<le> pb" by (simp only: pb_def)
  qed
  have "0 \<le> Ea * (1 - 1 / 2 ^ 51)" "0 \<le> Eb * (1 - 1 / 2 ^ 51)"
    using E0 by simp_all
  with a(1) b(1) have p0: "0 \<le> pa" "0 \<le> pb"
    by linarith+
  have sum: "E * (1 - 1 / 2 ^ 51) \<le> pa + pb" "pa + pb \<le> E * (1 + 1 / 2 ^ 51)"
    using a(1,2) b(1,2) by (simp_all add: E_def algebra_simps)
  have sum0: "0 \<le> pa + pb" using p0 by simp
  have sumn: "pa + pb = 0 \<or> 1 / 2 ^ 1022 \<le> pa + pb"
  proof (cases "i = 0 \<and> j = 0")
    case True
    with a(3) b(3) show ?thesis by simp
  next
    case False
    with assms have "1 \<le> i \<or> 1 \<le> j" by linarith
    with a(4) b(4) p0 have "1 / 2 ^ 32 \<le> pa + pb" by linarith
    moreover have "(1 :: rat) / 2 ^ 40 \<le> 1 / 2 ^ 32" by simp
    ultimately have "1 / 2 ^ 40 \<le> pa + pb" by linarith
    then show ?thesis by (rule normal_from_40)
  qed
  have s: "(pa + pb) * (1 - 1 / 2 ^ 53) \<le> s" "s \<le> (pa + pb) * (1 + 1 / 2 ^ 53)"
    using round_double_rel [OF sum0 sumn] by (simp_all add: s_def)
  have s0: "0 \<le> s" by (simp add: s_def sum0 round_double_nonneg)
  have sl: "E * (1 - 6 / 2 ^ 53) \<le> s"
  proof -
    have "(1 :: rat) - 6 / 2 ^ 53 \<le> (1 - 1 / 2 ^ 51) * (1 - 1 / 2 ^ 53)" by simp
    then have "E * (1 - 6 / 2 ^ 53) \<le> E * ((1 - 1 / 2 ^ 51) * (1 - 1 / 2 ^ 53))"
      using E0(3) by (rule mult_left_mono)
    also have "\<dots> = E * (1 - 1 / 2 ^ 51) * (1 - 1 / 2 ^ 53)" by simp
    also have "\<dots> \<le> (pa + pb) * (1 - 1 / 2 ^ 53)"
      using sum(1) by (intro mult_right_mono) simp_all
    also note s(1)
    finally show ?thesis .
  qed
  have su: "s \<le> E * (1 + 6 / 2 ^ 53)"
  proof -
    note s(2)
    also have "(pa + pb) * (1 + 1 / 2 ^ 53) \<le> E * (1 + 1 / 2 ^ 51) * (1 + 1 / 2 ^ 53)"
      using sum(2) by (intro mult_right_mono) simp_all
    also have "\<dots> = E * ((1 + 1 / 2 ^ 51) * (1 + 1 / 2 ^ 53))" by simp
    also have "\<dots> \<le> E * (1 + 6 / 2 ^ 53)"
    proof (rule mult_left_mono)
      show "(1 + 1 / 2 ^ 51) * (1 + 1 / 2 ^ 53) \<le> (1 :: rat) + 6 / 2 ^ 53" by simp
      show "0 \<le> E" by (rule E0(3))
    qed
    finally show ?thesis .
  qed
  have k0: "0 \<le> k"
    using s0 by (simp add: k_def round_half_even_nonneg)
  have "\<bar>of_int k - s * 10 ^ 6\<bar> \<le> 1 / 2"
    using round_half_even_error [of "s * 10 ^ 6"] by (simp add: k_def)
  then have Ks: "\<bar>K - s\<bar> \<le> 1 / (2 * 10 ^ 6)"
    by (simp add: K_def abs_if field_simps split: if_splits)
  have K0: "0 \<le> K" using k0 by (simp add: K_def)
  have Kn: "K = 0 \<or> 1 / 2 ^ 1022 \<le> K"
  proof (cases "k = 0")
    case True
    then show ?thesis by (simp add: K_def)
  next
    case False
    with k0 have "1 \<le> k" by simp
    then have "(1 :: rat) \<le> of_int k" by simp
    then have "1 / 2 ^ 40 \<le> K" by (simp add: K_def)
    then show ?thesis by (rule normal_from_40)
  qed
  have c: "K * (1 - 1 / 2 ^ 53) \<le> round_double K" "round_double K \<le> K * (1 + 1 / 2 ^ 53)"
    using round_double_rel [OF K0 Kn] by simp_all
  have KE: "\<bar>K - E\<bar> \<le> 1 / (2 * 10 ^ 6) + E * (6 / 2 ^ 53)"
    using Ks sl su by (simp add: abs_if algebra_simps split: if_splits)
  have KE': "\<bar>K - E\<bar> \<le> 1 / (2 * 10 ^ 6) + E / 2 ^ 50"
  proof -
    have "E * (6 / 2 ^ 53) \<le> E * (1 / 2 ^ 50)"
      using E0(3) by (intro mult_left_mono) simp_all
    with KE show ?thesis by simp
  qed
  have cK: "\<bar>round_double K - K\<bar> \<le> K * (1 / 2 ^ 53)"
    using c by (simp add: abs_if algebra_simps split: if_splits)
  have Ku: "K \<le> 1 / (2 * 10 ^ 6) + E * (1 + 6 / 2 ^ 53)"
    using KE by (simp add: abs_if algebra_simps split: if_splits)
  have "K * (1 / 2 ^ 53) \<le> (1 / (2 * 10 ^ 6) + E * (1 + 6 / 2 ^ 53)) * (1 / 2 ^ 53)"
    using Ku by (intro mult_right_mono) simp_all
  also have "\<dots> = 1 / (2 * 10 ^ 6) * (1 / 2 ^ 53) + E * ((1 + 6 / 2 ^ 53) * (1 / 2 ^ 53))"
    by (simp add: algebra_simps)
  finally have cK': "\<bar>round_double K - K\<bar>
      \<le> 1 / (2 * 10 ^ 6) * (1 / 2 ^ 53) + E * ((1 + 6 / 2 ^ 53) * (1 / 2 ^ 53))"
    using cK by linarith
  have coef: "E * ((1 + 6 / 2 ^ 53) * (1 / 2 ^ 53)) + E * (6 / 2 ^ 53) \<le> E * (1 / 2 ^ 50)"
  proof -
    have "E * ((1 + 6 / 2 ^ 53) * (1 / 2 ^ 53)) + E * (6 / 2 ^ 53)
        = E * ((1 + 6 / 2 ^ 53) * (1 / 2 ^ 53) + 6 / 2 ^ 53)"
      by (simp add: algebra_simps)
    also have "\<dots> \<le> E * (1 / 2 ^ 50)"
      using E0(3) by (intro mult_left_mono) simp_all
    finally show ?thesis .
  qed
  have small: "(1 :: rat) / (2 * 10 ^ 6) * (1 / 2 ^ 53) \<le> 1 / 2 ^ 50" by simp
  have "\<bar>round_double K - E\<bar> \<le> \<bar>round_double K - K\<bar> + \<bar>K - E\<bar>" by simp
  with cK' KE coef small
  have final: "\<bar>round_double K - E\<bar> \<le> 1 / (2 * 10 ^ 6) + (E + 1) / 2 ^ 50"
    by (simp add: add_divide_distrib)
  show ?thesis
    using cost k0 KE' final
    by (intro exI [of _ k]) (simp add: K_def E_def Ea_def Eb_def)
qed

text \<open>
  C6 (as amended). The usage summary of an input text and an output text has
  \<open>\<lfloor>len / 4\<rfloor>\<close> prompt and completion tokens and their sum as the total. The cost is
  the double of \<open>k\<close> millionths for a whole number \<open>k \<ge> 0\<close>; with \<open>E\<close> the exact value of
  \<open>(prompt_tokens / 1000) \<sqdot> 0.000075 + (completion_tokens / 1000) \<sqdot> 0.0003\<close>, the \<open>k\<close>
  millionths lie within half a millionth plus \<open>E / 2\<^sup>5\<^sup>0\<close> of \<open>E\<close>, and the cost within half a
  millionth plus \<open>(E + 1) / 2\<^sup>5\<^sup>0\<close>. The function has no failing branch and its result
  passes the validation of \<^verbatim>\<open>TokenUsage\<close>; texts of the same lengths give the same
  summary; two empty texts give zero tokens and zero cost.
\<close>

theorem estimate_usage_correct:
  "tu_prompt_tokens (get_usage_summary a b) = \<lfloor>(of_nat (length a) :: rat) / 4\<rfloor> \<and>
   tu_completion_tokens (get_usage_summary a b) = \<lfloor>(of_nat (length b) :: rat) / 4\<rfloor> \<and>
   tu_total_tokens (get_usage_summary a b) =
     tu_prompt_tokens (get_usage_summary a b) + tu_completion_tokens (get_usage_summary a b) \<and>
   (\<exists>k. tu_estimated_cost (get_usage_summary a b) = round_double (of_int k / 10 ^ 6) \<and>
        0 \<le> k \<and>
        \<bar>(of_int k / 10 ^ 6 :: rat)
           - (of_int (tu_prompt_tokens (get_usage_summary a b)) / 1000 * (75 / 10 ^ 6) +
              of_int (tu_completion_tokens (get_usage_summary a b)) / 1000 * (3 / 10 ^ 4))\<bar>
          \<le> 1 / (2 * 10 ^ 6) +
             (of_int (tu_prompt_tokens (get_usage_summary a b)) / 1000 * (75 / 10 ^ 6) +
              of_int (tu_completion_tokens (get_usage_summary a b)) / 1000 * (3 / 10 ^ 4))
             / 2 ^ 50) \<and>
   \<bar>tu_estimated_cost (get_usage_summary a b)
      - (of_int (tu_prompt_tokens (get_usage_summary a b)) / 1000 * (75 / 10 ^ 6) +
         of_int (tu_completion_tokens (get_usage_summary a b)) / 1000 * (3 / 10 ^ 4))\<bar>
     \<le> 1 / (2 * 10 ^ 6) +
        (of_int (tu_prompt_tokens (get_usage_summary a b)) / 1000 * (75 / 10 ^ 6) +
         of_int (tu_completion_tokens (get_usage_summary a b)) / 1000 * (3 / 10 ^ 4) + 1)
        / 2 ^ 50 \<and>
   0 \<le> tu_estimated_cost (get_usage_summary a b) \<and>
   TokenUsage (get_usage_summary a b) = Inr (get_usage_summary a b) \<and>
   (length a = length a' \<and> length b = length b' \<longrightarrow>
      get_usage_summary a b = get_usage_summary a' b') \<and>
   get_usage_summary [] [] =
     \<lparr>tu_prompt_tokens = 0, tu_completion_tokens = 0, tu_total_tokens = 0,
      tu_estimated_cost = 0\<rparr>"
proof -
  have tokens:
    "tu_prompt_tokens (get_usage_summary a b) = estimate_tokens a"
    "tu_completion_tokens (get_usage_summary a b) = estimate_tokens b"
    "tu_total_tokens (get_usage_summary a b) = estimate_tokens a + estimate_tokens b"
    "tu_estimated_cost (get_usage_summary a b) =
       calculate_cost (estimate_tokens a) (estimate_tokens b)"
    by (simp_all add: get_usage_summary_def Let_def)
  note err = calculate_cost_error [OF estimate_tokens_nonneg estimate_tokens_nonneg, of a b]
  have nonneg: "0 \<le> calculate_cost (estimate_tokens a) (estimate_tokens b)"
    by (simp add: calculate_cost_nonneg estimate_tokens_nonneg)
  have same: "length a = length a' \<and> length b = length b' \<longrightarrow>
      get_usage_summary a b = get_usage_summary a' b'"
    by (simp add: get_usage_summary_def estimate_tokens_def)
  have empty: "get_usage_summary [] [] =
     \<lparr>tu_prompt_tokens = 0, tu_completion_tokens = 0, tu_total_tokens = 0,
      tu_estimated_cost = 0\<rparr>"
    by (simp add: get_usage_summary_def estimate_tokens_def calculate_cost_zero)
  have floors: "estimate_tokens a = \<lfloor>(of_nat (length a) :: rat) / 4\<rfloor>"
    "estimate_tokens b = \<lfloor>(of_nat (length b) :: rat) / 4\<rfloor>"
    by (rule estimate_tokens_floor)+
  from err obtain k where k:
    "calculate_cost (estimate_tokens a) (estimate_tokens b) = round_double (of_int k / 10 ^ 6)"
    "0 \<le> k"
    "\<bar>(of_int k / 10 ^ 6 :: rat)
       - (of_int (estimate_tokens a) / 1000 * (75 / 10 ^ 6) +
          of_int (estimate_tokens b) / 1000 * (3 / 10 ^ 4))\<bar>
      \<le> 1 / (2 * 10 ^ 6) +
         (of_int (estimate_tokens a) / 1000 * (75 / 10 ^ 6) +
          of_int (estimate_tokens b) / 1000 * (3 / 10 ^ 4)) / 2 ^ 50"
    "\<bar>calculate_cost (estimate_tokens a) (estimate_tokens b)
       - (of_int (estimate_tokens a) / 1000 * (75 / 10 ^ 6) +
          of_int (estimate_tokens b) / 1000 * (3 / 10 ^ 4))\<bar>
      \<le> 1 / (2 * 10 ^ 6) +
         (of_int (estimate_tokens a) / 1000 * (75 / 10 ^ 6) +
          of_int (estimate_tokens b) / 1000 * (3 / 10 ^ 4) + 1) / 2 ^ 50"
    by blast
  have ex: "\<exists>k. calculate_cost (estimate_tokens a) (estimate_tokens b) =
        round_double (of_int k / 10 ^ 6) \<and> 0 \<le> k \<and>
      \<bar>(of_int k / 10 ^ 6 :: rat)
         - (of_int (estimate_tokens a) / 1000 * (75 / 10 ^ 6) +
            of_int (estimate_tokens b) / 1000 * (3 / 10 ^ 4))\<bar>
        \<le> 1 / (2 * 10 ^ 6) +
           (of_int (estimate_tokens a) / 1000 * (75 / 10 ^ 6) +
            of_int (estimate_tokens b) / 1000 * (3 / 10 ^ 4)) / 2 ^ 50"
    using k(1-3) by blast
  have valid: "TokenUsage (get_usage_summary a b) = Inr (get_usage_summary a b)"
    by (rule TokenUsage_get_usage_summary)
  show ?thesis
    unfolding tokens
    by (intro conjI floors ex k(4) nonneg same empty refl valid)
qed

theorem estimate_usage_correct_witness:
  "length ''You are an analyst.'' = length ''You are my analyst.'' \<and>
   length ''Crypto markets'' = length ''crypto Markets'' \<and>
   get_usage_summary ''You are an analyst.'' ''Crypto markets'' =
     get_usage_summary ''You are my analyst.'' ''crypto Markets''"
proof -
  have h: "length ''You are an analyst.'' = length ''You are my analyst.'' \<and>
      length ''Crypto markets'' = length ''crypto Markets''"
    by simp
  from estimate_usage_correct [of "''You are an analyst.''" "''Crypto markets''"
      "''You are my analyst.''" "''crypto Markets''"] h
  show ?thesis by blast
qed

text \<open>
  C6 (as stated) fails where the exact value of the formula is a tie. For no prompt
  tokens and five completion tokens it is 0.0000015, which rounds to 0.000002 (2
  millionths); the product the code computes is the double just below it, and the cost
  is the double 0.000001.
\<close>

theorem cost_rounding_counterexample:
  "tu_prompt_tokens (get_usage_summary [] ''aaaaaaaaaaaaaaaaaaaa'') = 0 \<and>
   tu_completion_tokens (get_usage_summary [] ''aaaaaaaaaaaaaaaaaaaa'') = 5 \<and>
   round_half_even ((0 / 1000 * (75 / 10 ^ 6) + 5 / 1000 * (3 / 10 ^ 4)) * 10 ^ 6) = 2 \<and>
   tu_estimated_cost (get_usage_summary [] ''aaaaaaaaaaaaaaaaaaaa'') =
     round_double (1 / 10 ^ 6) \<and>
   tu_estimated_cost (get_usage_summary [] ''aaaaaaaaaaaaaaaaaaaa'') \<noteq>
     round_double (2 / 10 ^ 6) \<and>
   tu_estimated_cost (get_usage_summary [] ''aaaaaaaaaaaaaaaaaaaa'') \<noteq> 2 / 10 ^ 6"
proof -
  have b: "round_double (5 / 1000) = 5764607523034235 / 2 ^ 60"
    by (rule round_double_small [where j = 8 and k = 5764607523034235]) simp_all
  have pb: "round_double (5764607523034235 / 2 ^ 60 * (5534023222112865 / 2 ^ 64)) = 7083549724304467 / 2 ^ 72"
    by (rule round_double_small [where j = 20 and k = 7083549724304467]) simp_all
  have s: "round_double (7083549724304467 / 2 ^ 72) = 7083549724304467 / 2 ^ 72"
    by (rule round_double_small [where j = 20 and k = 7083549724304467]) simp_all
  have q: "round_half_even (7083549724304467 / 2 ^ 72 * 10 ^ 6) = 1"
    by (rule round_half_even_eqI) simp
  have one: "round_double (1 / 10 ^ 6) = 4722366482869645 / 2 ^ 72"
    by (rule round_double_small [where j = 20 and k = 4722366482869645]) simp_all
  have two: "round_double (2 / 10 ^ 6) = 4722366482869645 / 2 ^ 71"
    by (rule round_double_small [where j = 19 and k = 4722366482869645]) simp_all
  have cost: "calculate_cost 0 5 = round_double (1 / 10 ^ 6)"
    unfolding calculate_cost_def Let_def fadd_def fmul_def int_truediv_def py_round_def
      COST_PER_1K_OUTPUT_value
    by (simp only: of_int_0 of_int_numeral div_0 round_double_zero mult_zero_left add_0 b pb s q
        of_int_1)
  have tie: "round_half_even ((0 / 1000 * (75 / 10 ^ 6) + 5 / 1000 * (3 / 10 ^ 4)) * 10 ^ 6) = 2"
    by (rule round_half_even_tie) simp_all
  have summary: "get_usage_summary [] ''aaaaaaaaaaaaaaaaaaaa'' =
      \<lparr>tu_prompt_tokens = 0, tu_completion_tokens = 5, tu_total_tokens = 5,
       tu_estimated_cost = calculate_cost 0 5\<rparr>"
    by (simp add: get_usage_summary_def estimate_tokens_def)
  have differ: "round_double (1 / 10 ^ 6) \<noteq> round_double (2 / 10 ^ 6)"
    "round_double (1 / 10 ^ 6) \<noteq> 2 / 10 ^ 6"
    unfolding one two by simp_all
  show ?thesis
    unfolding summary using tie differ cost by simp
qed

section \<open>Properties of the request validation\<close>

text \<open>
  C9. A preview or execute request whose density or creativity lies outside \<open>[0, 1]\<close>
  is rejected with the validation error before its handler runs: the preview returns
  nothing else, and the execute endpoint leaves the executions and the storage as they
  were.
\<close>

theorem out_of_range_position_rejected:
  assumes "pos_x (req_xy_position request) < 0 \<or> 1 < pos_x (req_xy_position request) \<or>
           pos_y (req_xy_position request) < 0 \<or> 1 < pos_y (req_xy_position request)"
  shows "post_prompt_preview request = Inl RequestValidationError \<and>
         post_agent_execute e request st = (Inl RequestValidationError, st)"
proof -
  from assms have "\<not> valid_xy_pad_position (req_xy_position request)"
    by (auto simp: valid_xy_pad_position_def)
  then have "\<not> valid_request request"
    by (simp add: valid_request_def)
  then show ?thesis
    by (simp add: post_prompt_preview_def post_agent_execute_def)
qed

theorem out_of_range_position_rejected_witness:
  "post_prompt_preview
     \<lparr>req_query = ''Analyze Q4 risk'',
      req_xy_position = \<lparr>pos_x = 3 / 2, pos_y = 1 / 2\<rparr>,
      req_agent_role = ''analyst''\<rparr> = Inl RequestValidationError \<and>
   post_agent_execute (example_env [] None)
     \<lparr>req_query = ''Analyze Q4 risk'',
      req_xy_position = \<lparr>pos_x = 3 / 2, pos_y = 1 / 2\<rparr>,
      req_agent_role = ''analyst''\<rparr> (example_state ''pending'' None) =
     (Inl RequestValidationError, example_state ''pending'' None)"
  by (rule out_of_range_position_rejected) simp

section \<open>Properties of the artifact manager\<close>

lemma encode_char_scalar:
  assumes "c < 0xD800 \<or> 0xE000 \<le> c \<and> c < 0x110000"
  shows "\<exists>b. encode_char c = Some b \<and> length b = utf8_width c"
  using assms by (auto simp: encode_char_def utf8_width_def)

lemma encode_utf8_scalars:
  assumes "\<forall>c\<in>set content. c < 0xD800 \<or> 0xE000 \<le> c \<and> c < 0x110000"
  shows "\<exists>encoded. encode_utf8 content = Inr encoded \<and>
     length encoded = (\<Sum>c\<leftarrow>content. utf8_width c)"
  using assms
proof (induction content)
  case Nil
  then show ?case by simp
next
  case (Cons c cs)
  then obtain b where b: "encode_char c = Some b" "length b = utf8_width c"
    using encode_char_scalar [of c] by auto
  from Cons obtain bs where bs: "encode_utf8 cs = Inr bs"
    "length bs = (\<Sum>c\<leftarrow>cs. utf8_width c)"
    by auto
  from b bs show ?case by simp
qed


text \<open>A text of the 8-bit character type always has an encoding.\<close>

lemma encode_utf8_code_points: "\<exists>encoded. encode_utf8 (code_points text) = Inr encoded"
proof -
  have "of_char ch < (0xD800 :: nat)" for ch :: char
    using nat_of_char_less_256 [of ch] by linarith
  then have "\<forall>c\<in>set (code_points text). c < 0xD800 \<or> 0xE000 \<le> c \<and> c < 0x110000"
    by (auto simp: code_points_def)
  then show ?thesis
    using encode_utf8_scalars by blast
qed

text \<open>The encodings of a Latin letter, an accented letter, the euro sign and an emoji.\<close>

lemma encode_utf8_examples:
  "encode_utf8 [0x63] = Inr [0x63]"
  "encode_utf8 [0xE9] = Inr [0xC3, 0xA9]"
  "encode_utf8 [0x20AC] = Inr [0xE2, 0x82, 0xAC]"
  "encode_utf8 [0x1F600] = Inr [0xF0, 0x9F, 0x98, 0x80]"
  by (simp_all add: encode_char_def)

lemma save_artifact_ok:
  assumes "file_type \<in> {''markdown'', ''json'', ''text''}"
    and "write_fault e = (\<lambda>p. None)"
    and "encode_utf8 content = Inr encoded"
  shows "save_artifact e content agent_role file_type fs =
     (let artifact_id = ''art_'' @ take 12 (uuid4_hex e);
          ext = (case extensions file_type of Some x \<Rightarrow> x | None \<Rightarrow> ''txt'');
          filename = artifact_id @ ''_'' @ strftime (utcnow e) @ ''.'' @ ext;
          metadata =
            \<lparr>meta_artifact_id = artifact_id,
             meta_filename = filename,
             meta_content = content,
             meta_created_at = utcnow e,
             meta_file_type = file_type,
             meta_size_bytes = int (length encoded),
             meta_agent_role = agent_role\<rparr>
      in (Inr metadata,
          fs(filename \<mapsto> TextFile content, artifact_id @ ''_meta.json'' \<mapsto> JsonFile metadata)))"
  using assms by (auto simp: save_artifact_def ArtifactMetadata_def Let_def)

lemma save_artifact_result:
  assumes "file_type \<in> {''markdown'', ''json'', ''text''}"
    and "write_fault e = (\<lambda>p. None)"
    and "encode_utf8 content = Inr encoded"
  shows "\<exists>metadata fs'.
     save_artifact e content agent_role file_type fs = (Inr metadata, fs') \<and>
     meta_artifact_id metadata = ''art_'' @ take 12 (uuid4_hex e) \<and>
     meta_content metadata = content \<and>
     meta_size_bytes metadata = int (length encoded) \<and>
     meta_file_type metadata = file_type \<and>
     meta_agent_role metadata = agent_role \<and>
     fs' (meta_artifact_id metadata @ ''_meta.json'') = Some (JsonFile metadata) \<and>
     get_artifact (meta_artifact_id metadata) fs' = Inr metadata"
  using assms
  by (auto simp: save_artifact_ok get_artifact_def model_validate_json_def ArtifactMetadata_def
      Let_def)

text \<open>A failed save leaves at most the content file behind, never a metadata record.\<close>

lemma save_artifact_failure_storage:
  assumes "save_artifact e content agent_role file_type fs = (Inl err, fs')"
  shows "fs' p = Some (JsonFile m) \<Longrightarrow> fs p = Some (JsonFile m)"
  using assms
  by (auto simp: save_artifact_def Let_def split: option.splits sum.splits if_splits)





section \<open>Properties of the stream\<close>

lemma get_temperature_in_range:
  assumes "0 \<le> y" "y \<le> 1"
  shows "0 \<le> get_temperature y \<and> get_temperature y \<le> 1"
proof -
  have "0 \<le> y * (7 / 10)" "y * (7 / 10) \<le> 7 / 10"
    using assms by simp_all
  with get_temperature_error [OF assms] show ?thesis
    by (simp add: abs_if split: if_splits)
qed

text \<open>A request that validates always gets its execution: the bundle passes the response model.\<close>

lemma execute_agent_valid:
  assumes "valid_request request"
  shows "\<exists>response.
     post_agent_execute e request st =
       (Inr response,
        st\<lparr>executions := (executions st)(''exec_'' @ take 12 (uuid4_hex e) \<mapsto>
             \<lparr>exec_request = request,
              exec_prompt_components =
                build_prompt_components (req_agent_role request)
                  (pos_x (req_xy_position request)) (pos_y (req_xy_position request))
                  (req_query request),
              exec_status = ''pending'',
              exec_created_at = utcnow e,
              exec_artifact_id = None,
              exec_error = None\<rparr>)\<rparr>)"
proof -
  from assms have "0 \<le> pos_y (req_xy_position request)" "pos_y (req_xy_position request) \<le> 1"
    by (simp_all add: valid_request_def valid_xy_pad_position_def)
  then have "0 \<le> get_temperature (pos_y (req_xy_position request)) \<and>
      get_temperature (pos_y (req_xy_position request)) \<le> 1"
    by (rule get_temperature_in_range)
  with assms show ?thesis
    by (simp add: post_agent_execute_def execute_agent_def PromptComponents_def Let_def
        pc_temperature_build)
qed

lemma stream_agent_response_unknown:
  "executions st execution_id = None \<Longrightarrow>
     stream_agent_response e execution_id st =
       (Inl (HTTPException 404 ''Execution not found''), st)"
  by (simp add: stream_agent_response_def)

lemma stream_agent_response_known:
  "executions st execution_id = Some execution \<Longrightarrow>
     stream_agent_response e execution_id st =
       (Inr (fst (event_generator e execution_id execution st)),
        snd (event_generator e execution_id execution st))"
  by (simp add: stream_agent_response_def split_beta)

lemma event_generator_backend_failure:
  assumes "stream_of e execution = (tokens, Some err)"
  shows "event_generator e execution_id execution st =
     (map TokenEvent tokens @ [ErrorEvent (str err)],
      st\<lparr>executions := (executions st)(execution_id \<mapsto>
            execution\<lparr>exec_status := ''error'', exec_error := Some (str err)\<rparr>)\<rparr>)"
  using assms
  by (simp add: event_generator_def stream_of_def full_prompt_of_def handle_exception_def
      Let_def)

lemma event_generator_save_failure:
  assumes "stream_of e execution = (tokens, None)"
    and "save_artifact e (code_points (concat tokens))
           (req_agent_role (exec_request execution)) ''markdown''
           (artifacts st) = (Inl err, fs')"
  shows "event_generator e execution_id execution st =
     (map TokenEvent tokens @ [ErrorEvent (str err)],
      st\<lparr>executions := (executions st)(execution_id \<mapsto>
            execution\<lparr>exec_status := ''error'', exec_error := Some (str err)\<rparr>),
         artifacts := fs'\<rparr>)"
  using assms
  by (simp add: event_generator_def stream_of_def full_prompt_of_def handle_exception_def
      Let_def)

lemma event_generator_saved:
  assumes "stream_of e execution = (tokens, None)"
    and "save_artifact e (code_points (concat tokens))
           (req_agent_role (exec_request execution)) ''markdown''
           (artifacts st) = (Inr artifact, fs')"
  shows "event_generator e execution_id execution st =
     (map TokenEvent tokens @
        [CompleteEvent (meta_artifact_id artifact)
           (get_usage_summary (full_prompt_of execution) (concat tokens))],
      st\<lparr>executions := (executions st)(execution_id \<mapsto>
            execution\<lparr>exec_status := ''completed'',
                      exec_artifact_id := Some (meta_artifact_id artifact)\<rparr>),
         artifacts := fs'\<rparr>)"
  using assms
  by (simp add: event_generator_def stream_of_def full_prompt_of_def Let_def
      TokenUsage_get_usage_summary)

text \<open>The status an entry has when the stream is requested has no influence on the run.\<close>

lemma event_generator_status_irrelevant:
  "event_generator e execution_id (execution\<lparr>exec_status := status\<rparr>)
     (st\<lparr>executions := (executions st)(execution_id \<mapsto> execution\<lparr>exec_status := status\<rparr>)\<rparr>) =
   event_generator e execution_id execution
     (st\<lparr>executions := (executions st)(execution_id \<mapsto> execution)\<rparr>)"
  by (simp add: event_generator_def handle_exception_def Let_def)

text \<open>
  How a run ends: with a complete event, the entry then having the status
  \<^verbatim>\<open>"completed"\<close> and the new artifact identifier, or with an error event, the entry
  then having the status \<^verbatim>\<open>"error"\<close> and the message. Each branch assigns these two keys
  and no other, so whatever else the entry held stays.
\<close>

lemma event_generator_outcome:
  "\<exists>events st'.
     event_generator e execution_id execution st = (events, st') \<and> events \<noteq> [] \<and>
     ((\<exists>artifact_id usage.
         last events = CompleteEvent artifact_id usage \<and>
         executions st' execution_id =
           Some (execution\<lparr>exec_status := ''completed'',
                          exec_artifact_id := Some artifact_id\<rparr>)) \<or>
      (\<exists>message.
         last events = ErrorEvent message \<and>
         executions st' execution_id =
           Some (execution\<lparr>exec_status := ''error'', exec_error := Some message\<rparr>)))"
proof -
  obtain tokens failure where s: "stream_of e execution = (tokens, failure)"
    by (cases "stream_of e execution")
  show ?thesis
  proof (cases failure)
    case (Some err)
    with s show ?thesis
      by (simp add: event_generator_backend_failure)
  next
    case None
    obtain result fs' where saved:
      "save_artifact e (code_points (concat tokens))
         (req_agent_role (exec_request execution)) ''markdown'' (artifacts st) = (result, fs')"
      by (cases "save_artifact e (code_points (concat tokens))
         (req_agent_role (exec_request execution)) ''markdown'' (artifacts st)")
    show ?thesis
    proof (cases result)
      case (Inl err)
      with s None saved show ?thesis
        by (simp add: event_generator_save_failure)
    next
      case (Inr artifact)
      with s None saved show ?thesis
        by (simp add: event_generator_saved)
    qed
  qed
qed

lemma example_lookup:
  "executions (example_state status artifact_id) ''exec_0123456789ab'' =
     Some (example_execution status artifact_id)"
  by (simp add: example_state_def)

lemma example_stream_of:
  "stream_of (example_env chunks failure) execution =
     (filter (\<lambda>t. t \<noteq> []) chunks,
      map_option (\<lambda>err. Exception (''Gemini API error: '' @ str err)) failure)"
  by (simp add: stream_of_def stream_generate_def example_env_def Let_def)

text \<open>
  C1 (as amended). Streaming an unknown identifier fails with the not-found error before
  any event, and leaves the state as it was. The status of a known execution is not
  looked at: the request is not rejected, and the events and the final state are the
  same whatever the status of the entry was. The run ends with a complete event, and
  then the entry has the status \<^verbatim>\<open>"completed"\<close> and the new artifact identifier and keeps
  its other fields, an error message of an earlier run included; or it ends with an
  error event, and then the entry has the status \<^verbatim>\<open>"error"\<close> and the message and keeps
  its other fields, an artifact identifier of an earlier run included.
\<close>

theorem stream_status_unchecked:
  "(executions st execution_id = None \<longrightarrow>
      stream_agent_response e execution_id st =
        (Inl (HTTPException 404 ''Execution not found''), st)) \<and>
   (executions st execution_id = Some execution \<longrightarrow>
      (\<exists>events st'.
         stream_agent_response e execution_id st = (Inr events, st') \<and> events \<noteq> [] \<and>
         ((\<exists>artifact_id usage.
             last events = CompleteEvent artifact_id usage \<and>
             executions st' execution_id =
               Some (execution\<lparr>exec_status := ''completed'',
                              exec_artifact_id := Some artifact_id\<rparr>)) \<or>
          (\<exists>message.
             last events = ErrorEvent message \<and>
             executions st' execution_id =
               Some (execution\<lparr>exec_status := ''error'',
                              exec_error := Some message\<rparr>)))) \<and>
      stream_agent_response e execution_id
        (st\<lparr>executions := (executions st)(execution_id \<mapsto> execution\<lparr>exec_status := status\<rparr>)\<rparr>) =
      stream_agent_response e execution_id st)"
proof (intro conjI impI)
  assume "executions st execution_id = None"
  then show "stream_agent_response e execution_id st =
      (Inl (HTTPException 404 ''Execution not found''), st)"
    by (rule stream_agent_response_unknown)
next
  assume known: "executions st execution_id = Some execution"
  from event_generator_outcome [of e execution_id execution st]
  obtain events st' where run: "event_generator e execution_id execution st = (events, st')"
    and outcome: "events \<noteq> []"
      "(\<exists>artifact_id usage.
          last events = CompleteEvent artifact_id usage \<and>
          executions st' execution_id =
            Some (execution\<lparr>exec_status := ''completed'',
                           exec_artifact_id := Some artifact_id\<rparr>)) \<or>
       (\<exists>message.
          last events = ErrorEvent message \<and>
          executions st' execution_id =
            Some (execution\<lparr>exec_status := ''error'',
                           exec_error := Some message\<rparr>))"
    by blast
  have "stream_agent_response e execution_id st = (Inr events, st')"
    by (simp add: stream_agent_response_known [OF known] run)
  with outcome
  show "\<exists>events st'.
      stream_agent_response e execution_id st = (Inr events, st') \<and> events \<noteq> [] \<and>
      ((\<exists>artifact_id usage.
          last events = CompleteEvent artifact_id usage \<and>
          executions st' execution_id =
            Some (execution\<lparr>exec_status := ''completed'',
                           exec_artifact_id := Some artifact_id\<rparr>)) \<or>
       (\<exists>message.
          last events = ErrorEvent message \<and>
          executions st' execution_id =
            Some (execution\<lparr>exec_status := ''error'',
                           exec_error := Some message\<rparr>)))"
    by blast
  from known have same: "st\<lparr>executions := (executions st)(execution_id \<mapsto> execution)\<rparr> = st"
    by (simp add: fun_upd_idem)
  show "stream_agent_response e execution_id
        (st\<lparr>executions := (executions st)(execution_id \<mapsto> execution\<lparr>exec_status := status\<rparr>)\<rparr>) =
      stream_agent_response e execution_id st"
    using known event_generator_status_irrelevant
        [where e = e and execution_id = execution_id and execution = execution
           and status = status and st = st]
    by (simp add: stream_agent_response_def same)
qed

theorem stream_status_unchecked_witness:
  "stream_agent_response (example_env [''Hello'', '' world''] None) ''exec_ffffffffffff''
     (example_state ''pending'' None) =
     (Inl (HTTPException 404 ''Execution not found''), example_state ''pending'' None) \<and>
   stream_agent_response (example_env [''Hello'', '' world''] None) ''exec_0123456789ab''
     ((example_state ''pending'' None)
        \<lparr>executions := (executions (example_state ''pending'' None))(''exec_0123456789ab'' \<mapsto>
            (example_execution ''pending'' None)\<lparr>exec_status := ''completed''\<rparr>)\<rparr>) =
   stream_agent_response (example_env [''Hello'', '' world''] None) ''exec_0123456789ab''
     (example_state ''pending'' None)"
proof -
  have h1: "executions (example_state ''pending'' None) ''exec_ffffffffffff'' = None"
    by (simp add: example_state_def)
  have h2: "executions (example_state ''pending'' None) ''exec_0123456789ab'' =
      Some (example_execution ''pending'' None)"
    by (rule example_lookup)
  from stream_status_unchecked
      [where st = "example_state ''pending'' None" and execution_id = "''exec_ffffffffffff''"] h1
    stream_status_unchecked
      [where st = "example_state ''pending'' None" and execution_id = "''exec_0123456789ab''"
         and execution = "example_execution ''pending'' None"] h2
  show ?thesis by blast
qed

text \<open>
  C1 (as stated) fails: an execution that is already completed, with the artifact of its
  first stream attached, is streamed again on request. The request is not rejected, the
  consumer gets the token events and a complete event, and the entry now names the
  artifact of the second run.
\<close>

theorem restream_counterexample:
  "exec_status (example_execution ''completed'' (Some ''art_aaaaaaaaaaaa'')) \<noteq> ''pending'' \<and>
   fst (stream_agent_response (example_env [''Hello'', '' world''] None) ''exec_0123456789ab''
          (example_state ''completed'' (Some ''art_aaaaaaaaaaaa''))) =
     Inr [TokenEvent ''Hello'', TokenEvent '' world'',
          CompleteEvent ''art_0123456789ab''
            (get_usage_summary
               (full_prompt_of (example_execution ''completed'' (Some ''art_aaaaaaaaaaaa'')))
               ''Hello world'')] \<and>
   map_option exec_artifact_id
     (executions (example_state ''completed'' (Some ''art_aaaaaaaaaaaa'')) ''exec_0123456789ab'') =
     Some (Some ''art_aaaaaaaaaaaa'') \<and>
   map_option exec_artifact_id
     (executions
        (snd (stream_agent_response (example_env [''Hello'', '' world''] None)
                ''exec_0123456789ab'' (example_state ''completed'' (Some ''art_aaaaaaaaaaaa''))))
        ''exec_0123456789ab'') =
     Some (Some ''art_0123456789ab'')"
proof -
  let ?e = "example_env [''Hello'', '' world''] None"
  let ?x = "example_execution ''completed'' (Some ''art_aaaaaaaaaaaa'')"
  let ?st = "example_state ''completed'' (Some ''art_aaaaaaaaaaaa'')"
  have s: "stream_of ?e ?x = ([''Hello'', '' world''], None)"
    by (simp add: example_stream_of)
  have w: "write_fault ?e = (\<lambda>p. None)" and u: "uuid4_hex ?e = ''0123456789abcdef0123456789abcdef''"
    by (simp_all add: example_env_def)
  have m: "''markdown'' \<in> {''markdown'', ''json'', ''text''}" by simp
  obtain encoded where enc: "encode_utf8 (code_points (concat [''Hello'', '' world''])) = Inr encoded"
    using encode_utf8_code_points by blast
  obtain artifact fs' where
    saved: "save_artifact ?e (code_points (concat [''Hello'', '' world'']))
        (req_agent_role (exec_request ?x)) ''markdown'' (artifacts ?st) = (Inr artifact, fs')"
    and aid: "meta_artifact_id artifact = ''art_0123456789ab''"
    using save_artifact_ok [OF m w enc] by (simp add: Let_def u)
  from event_generator_saved [OF s saved, where execution_id = "''exec_0123456789ab''"] aid
  show ?thesis
    by (simp add: stream_agent_response_known [OF example_lookup] example_lookup
        example_execution_def)
qed

text \<open>
  C2. When the stream of the client ends with an exception, or the artifact cannot be
  saved, the consumer gets the token events of the fragments yielded so far followed by
  one error event with the message of the exception, and nothing after it; the entry
  has the status \<^verbatim>\<open>"error"\<close> (the spec's errored state) and the message. After a
  failure of the client the storage is what it was: the partial output is not saved.
  After a failed save the storage holds no metadata record it did not hold before.
\<close>

theorem stream_failure:
  assumes "executions st execution_id = Some execution"
  shows
    "(stream_of e execution = (tokens, Some err) \<longrightarrow>
        stream_agent_response e execution_id st =
          (Inr (map TokenEvent tokens @ [ErrorEvent (str err)]),
           st\<lparr>executions := (executions st)(execution_id \<mapsto>
                 execution\<lparr>exec_status := ''error'', exec_error := Some (str err)\<rparr>)\<rparr>)) \<and>
     (stream_of e execution = (tokens, None) \<and>
      save_artifact e (code_points (concat tokens))
           (req_agent_role (exec_request execution)) ''markdown''
        (artifacts st) = (Inl err, fs') \<longrightarrow>
        stream_agent_response e execution_id st =
          (Inr (map TokenEvent tokens @ [ErrorEvent (str err)]),
           st\<lparr>executions := (executions st)(execution_id \<mapsto>
                 execution\<lparr>exec_status := ''error'', exec_error := Some (str err)\<rparr>),
              artifacts := fs'\<rparr>) \<and>
        (\<forall>p m. fs' p = Some (JsonFile m) \<longrightarrow> artifacts st p = Some (JsonFile m)))"
proof (intro conjI impI allI)
  assume "stream_of e execution = (tokens, Some err)"
  then show "stream_agent_response e execution_id st =
      (Inr (map TokenEvent tokens @ [ErrorEvent (str err)]),
       st\<lparr>executions := (executions st)(execution_id \<mapsto>
             execution\<lparr>exec_status := ''error'', exec_error := Some (str err)\<rparr>)\<rparr>)"
    by (simp add: stream_agent_response_known [OF assms] event_generator_backend_failure)
next
  assume a: "stream_of e execution = (tokens, None) \<and>
      save_artifact e (code_points (concat tokens))
           (req_agent_role (exec_request execution)) ''markdown''
        (artifacts st) = (Inl err, fs')"
  then show "stream_agent_response e execution_id st =
      (Inr (map TokenEvent tokens @ [ErrorEvent (str err)]),
       st\<lparr>executions := (executions st)(execution_id \<mapsto>
             execution\<lparr>exec_status := ''error'', exec_error := Some (str err)\<rparr>),
          artifacts := fs'\<rparr>)"
    by (simp add: stream_agent_response_known [OF assms] event_generator_save_failure)
  fix p m
  assume "fs' p = Some (JsonFile m)"
  with a show "artifacts st p = Some (JsonFile m)"
    by (blast intro: save_artifact_failure_storage)
qed

theorem stream_failure_witness:
  "stream_agent_response (example_env [''Hello''] (Some (Exception ''quota exceeded'')))
     ''exec_0123456789ab'' (example_state ''pending'' None) =
     (Inr [TokenEvent ''Hello'', ErrorEvent ''Gemini API error: quota exceeded''],
      (example_state ''pending'' None)
        \<lparr>executions := (executions (example_state ''pending'' None))(''exec_0123456789ab'' \<mapsto>
            (example_execution ''pending'' None)
              \<lparr>exec_status := ''error'',
               exec_error := Some ''Gemini API error: quota exceeded''\<rparr>)\<rparr>) \<and>
   stream_agent_response
     ((example_env [''Hello'', '' world''] None)
        \<lparr>write_fault := (\<lambda>p. Some (OSError ''No space left on device''))\<rparr>)
     ''exec_0123456789ab'' (example_state ''pending'' None) =
     (Inr [TokenEvent ''Hello'', TokenEvent '' world'', ErrorEvent ''No space left on device''],
      (example_state ''pending'' None)
        \<lparr>executions := (executions (example_state ''pending'' None))(''exec_0123456789ab'' \<mapsto>
            (example_execution ''pending'' None)
              \<lparr>exec_status := ''error'',
               exec_error := Some ''No space left on device''\<rparr>),
         artifacts := Map.empty\<rparr>)"
proof -
  let ?e1 = "example_env [''Hello''] (Some (Exception ''quota exceeded''))"
  let ?e2 = "(example_env [''Hello'', '' world''] None)
        \<lparr>write_fault := (\<lambda>p. Some (OSError ''No space left on device''))\<rparr>"
  let ?x = "example_execution ''pending'' None"
  let ?st = "example_state ''pending'' None"
  have h1: "stream_of ?e1 ?x = ([''Hello''], Some (Exception ''Gemini API error: quota exceeded''))"
    by (simp add: example_stream_of)
  have h2: "stream_of ?e2 ?x = ([''Hello'', '' world''], None) \<and>
      save_artifact ?e2 (code_points (concat [''Hello'', '' world'']))
        (req_agent_role (exec_request ?x)) ''markdown'' (artifacts ?st) =
        (Inl (OSError ''No space left on device''), Map.empty)"
    by (simp add: stream_of_def stream_generate_def example_env_def save_artifact_def
        example_state_def Let_def)
  from stream_failure [OF example_lookup, where e = ?e1 and tokens = "[''Hello'']"
      and err = "Exception ''Gemini API error: quota exceeded''"] h1
  have r1: "stream_agent_response ?e1 ''exec_0123456789ab'' ?st =
     (Inr (map TokenEvent [''Hello''] @
           [ErrorEvent (str (Exception ''Gemini API error: quota exceeded''))]),
      ?st\<lparr>executions := (executions ?st)(''exec_0123456789ab'' \<mapsto>
            ?x\<lparr>exec_status := ''error'',
               exec_error := Some (str (Exception ''Gemini API error: quota exceeded''))\<rparr>)\<rparr>)"
    by blast
  from stream_failure [OF example_lookup, where e = ?e2 and tokens = "[''Hello'', '' world'']"
      and err = "OSError ''No space left on device''" and fs' = Map.empty] h2
  have r2: "stream_agent_response ?e2 ''exec_0123456789ab'' ?st =
     (Inr (map TokenEvent [''Hello'', '' world''] @
           [ErrorEvent (str (OSError ''No space left on device''))]),
      ?st\<lparr>executions := (executions ?st)(''exec_0123456789ab'' \<mapsto>
            ?x\<lparr>exec_status := ''error'',
               exec_error := Some (str (OSError ''No space left on device''))\<rparr>),
         artifacts := Map.empty\<rparr>)"
    by blast
  from r1 r2 show ?thesis by simp
qed

text \<open>
  C3. When the stream of the client ends without an exception (and the storage accepts
  the writes), the consumer gets one token event per fragment, with the fragment as it
  came and in the order of arrival, and then one complete event. The identifier in it
  names the artifact saved by this run, whose content is the concatenation of the
  fragments and whose role is the persona of the request; the usage in it is the
  summary over the full prompt and the accumulated output; the entry has the status
  \<^verbatim>\<open>"completed"\<close> and the artifact identifier.
\<close>

theorem stream_completes:
  assumes "executions st execution_id = Some execution"
    and "stream_of e execution = (tokens, None)"
    and "write_fault e = (\<lambda>p. None)"
  shows "\<exists>artifact st'.
     stream_agent_response e execution_id st =
       (Inr (map TokenEvent tokens @
          [CompleteEvent (meta_artifact_id artifact)
             (get_usage_summary (full_prompt_of execution) (concat tokens))]), st') \<and>
     meta_artifact_id artifact = ''art_'' @ take 12 (uuid4_hex e) \<and>
     artifacts st' (meta_artifact_id artifact @ ''_meta.json'') = Some (JsonFile artifact) \<and>
     get_artifact (meta_artifact_id artifact) (artifacts st') = Inr artifact \<and>
     meta_content artifact = code_points (concat tokens) \<and>
     meta_agent_role artifact = req_agent_role (exec_request execution) \<and>
     executions st' execution_id =
       Some (execution\<lparr>exec_status := ''completed'',
                      exec_artifact_id := Some (meta_artifact_id artifact)\<rparr>)"
proof -
  have m: "''markdown'' \<in> {''markdown'', ''json'', ''text''}" by simp
  obtain encoded where enc: "encode_utf8 (code_points (concat tokens)) = Inr encoded"
    using encode_utf8_code_points by blast
  from save_artifact_result [OF m assms(3) enc]
  obtain artifact fs' where
    saved: "save_artifact e (code_points (concat tokens))
        (req_agent_role (exec_request execution)) ''markdown'' (artifacts st) =
        (Inr artifact, fs')"
    and props: "meta_artifact_id artifact = ''art_'' @ take 12 (uuid4_hex e)"
      "meta_content artifact = code_points (concat tokens)"
      "meta_agent_role artifact = req_agent_role (exec_request execution)"
      "fs' (meta_artifact_id artifact @ ''_meta.json'') = Some (JsonFile artifact)"
      "get_artifact (meta_artifact_id artifact) fs' = Inr artifact"
    by blast
  show ?thesis
    using props
    by (intro exI [of _ artifact]
          exI [of _ "snd (event_generator e execution_id execution st)"])
       (simp add: stream_agent_response_known [OF assms(1)]
          event_generator_saved [OF assms(2) saved])
qed

theorem stream_completes_witness:
  "\<exists>artifact st'.
     stream_agent_response (example_env [''Hello'', '' world''] None) ''exec_0123456789ab''
         (example_state ''pending'' None) =
       (Inr [TokenEvent ''Hello'', TokenEvent '' world'',
             CompleteEvent ''art_0123456789ab''
               (get_usage_summary (full_prompt_of (example_execution ''pending'' None))
                  ''Hello world'')], st') \<and>
     get_artifact ''art_0123456789ab'' (artifacts st') = Inr artifact \<and>
     meta_content artifact = code_points ''Hello world'' \<and>
     executions st' ''exec_0123456789ab'' =
       Some ((example_execution ''pending'' None)
               \<lparr>exec_status := ''completed'', exec_artifact_id := Some ''art_0123456789ab''\<rparr>)"
proof -
  let ?e = "example_env [''Hello'', '' world''] None"
  have h2: "stream_of ?e (example_execution ''pending'' None) = ([''Hello'', '' world''], None)"
    by (simp add: example_stream_of)
  have h3: "write_fault ?e = (\<lambda>p. None)"
    by (simp add: example_env_def)
  have u: "uuid4_hex ?e = ''0123456789abcdef0123456789abcdef''"
    by (simp add: example_env_def)
  from stream_completes [OF example_lookup h2 h3]
  obtain artifact st' where
    "stream_agent_response ?e ''exec_0123456789ab'' (example_state ''pending'' None) =
       (Inr (map TokenEvent [''Hello'', '' world''] @
          [CompleteEvent (meta_artifact_id artifact)
             (get_usage_summary (full_prompt_of (example_execution ''pending'' None))
                (concat [''Hello'', '' world'']))]), st')"
    "meta_artifact_id artifact = ''art_'' @ take 12 (uuid4_hex ?e)"
    "get_artifact (meta_artifact_id artifact) (artifacts st') = Inr artifact"
    "meta_content artifact = code_points (concat [''Hello'', '' world''])"
    "executions st' ''exec_0123456789ab'' =
       Some ((example_execution ''pending'' None)
               \<lparr>exec_status := ''completed'',
                exec_artifact_id := Some (meta_artifact_id artifact)\<rparr>)"
    by blast
  then show ?thesis
    by (intro exI [of _ artifact] exI [of _ st']) (simp add: u)
qed

end
